theory Spec2Isabelle
  imports Complex_Main "HOL-Library.Log_Nat"
begin

section \<open>JavaScript numbers and values\<close>

text \<open>
  The services compute with JavaScript numbers, which are IEEE-754 binary64 values.
  A \<open>number\<close> is a finite double, given by the rational it denotes, an infinity or
  NaN; \<open>fl\<close> rounds a rational to the nearest double, ties to the even significand,
  with gradual underflow and overflow to infinity, and every arithmetic operator rounds
  its exact result with \<open>fl\<close>. The sign of zero is not represented: the routes never
  divide by a computed value and \<open>-0\<close> prints as \<open>0\<close>. A number in a JSON request
  body is given by the decimal literal in the body; the handler sees \<open>fl\<close> of it.
\<close>

datatype number = Num rat | PosInfinity | NegInfinity | NaN

definition pow2 :: "int \<Rightarrow> rat" where
  "pow2 k = (if 0 \<le> k then 2 ^ nat k else 1 / 2 ^ nat (- k))"

definition pow10 :: "int \<Rightarrow> rat" where
  "pow10 k = (if 0 \<le> k then 10 ^ nat k else 1 / 10 ^ nat (- k))"

text \<open>For \<open>x > 0\<close>: the \<open>k\<close> with \<open>2 ^ k \<le> x < 2 ^ (k + 1)\<close>, from the bit lengths.\<close>

definition ilog2 :: "rat \<Rightarrow> int" where
  "ilog2 x = (case quotient_of x of (p, q) \<Rightarrow>
       let k = bitlen p - bitlen q
       in if pow2 k \<le> x then k else k - 1)"

text \<open>For a positive double \<open>x\<close>: the \<open>k\<close> with \<open>10 ^ k \<le> x < 10 ^ (k + 1)\<close>.\<close>

definition ilog10 :: "rat \<Rightarrow> int" where
  "ilog10 x =
     (let k = \<lfloor>of_int (ilog2 x) * (30103 / 100000 :: rat)\<rfloor>
      in if pow10 (k + 1) \<le> x then k + 1 else if pow10 k \<le> x then k else k - 1)"

definition roundHalfEven :: "rat \<Rightarrow> int" where
  "roundHalfEven x =
     (let f = \<lfloor>x\<rfloor>; d = x - of_int f
      in if d < 1 / 2 then f else if 1 / 2 < d then f + 1 else if even f then f else f + 1)"

definition fl :: "rat \<Rightarrow> number" where
  "fl x =
     (if x = 0 then Num 0
      else
        let a = \<bar>x\<bar>;
            e = max (ilog2 a) (- 1022);
            q = pow2 (e - 52);
            m = roundHalfEven (a / q)
        in if 1024 \<le> e \<or> (e = 1023 \<and> m = 2 ^ 53)
           then (if 0 < x then PosInfinity else NegInfinity)
           else Num (if 0 < x then of_int m * q else - (of_int m * q)))"

fun js_neg :: "number \<Rightarrow> number" where
  "js_neg (Num a) = Num (- a)"
| "js_neg PosInfinity = NegInfinity"
| "js_neg NegInfinity = PosInfinity"
| "js_neg NaN = NaN"

fun js_add :: "number \<Rightarrow> number \<Rightarrow> number" where
  "js_add (Num a) (Num b) = fl (a + b)"
| "js_add NaN y = NaN"
| "js_add x NaN = NaN"
| "js_add PosInfinity NegInfinity = NaN"
| "js_add NegInfinity PosInfinity = NaN"
| "js_add PosInfinity y = PosInfinity"
| "js_add NegInfinity y = NegInfinity"
| "js_add x PosInfinity = PosInfinity"
| "js_add x NegInfinity = NegInfinity"

definition js_sub :: "number \<Rightarrow> number \<Rightarrow> number" where
  "js_sub x y = js_add x (js_neg y)"

definition signed_infinity :: "bool \<Rightarrow> number" where
  "signed_infinity positive = (if positive then PosInfinity else NegInfinity)"

fun js_mul :: "number \<Rightarrow> number \<Rightarrow> number" where
  "js_mul (Num a) (Num b) = fl (a * b)"
| "js_mul NaN y = NaN"
| "js_mul x NaN = NaN"
| "js_mul (Num a) y = (if a = 0 then NaN else signed_infinity ((0 < a) = (y = PosInfinity)))"
| "js_mul x (Num b) = (if b = 0 then NaN else signed_infinity ((0 < b) = (x = PosInfinity)))"
| "js_mul x y = signed_infinity (x = y)"

fun js_div :: "number \<Rightarrow> number \<Rightarrow> number" where
  "js_div (Num a) (Num b) =
     (if b = 0 then (if a = 0 then NaN else signed_infinity (0 < a)) else fl (a / b))"
| "js_div NaN y = NaN"
| "js_div x NaN = NaN"
| "js_div (Num a) y = Num 0"
| "js_div x (Num b) = signed_infinity ((0 \<le> b) = (x = PosInfinity))"
| "js_div x y = NaN"

text \<open>\<open>x < y\<close>, \<open>x > y\<close> and \<open>x >= y\<close> on numbers: false as soon as one side is NaN.\<close>

fun js_lt :: "number \<Rightarrow> number \<Rightarrow> bool" where
  "js_lt (Num a) (Num b) = (a < b)"
| "js_lt NaN y = False"
| "js_lt x NaN = False"
| "js_lt x NegInfinity = False"
| "js_lt NegInfinity y = True"
| "js_lt PosInfinity y = False"
| "js_lt x PosInfinity = True"

definition js_gt :: "number \<Rightarrow> number \<Rightarrow> bool" where
  "js_gt x y = js_lt y x"

definition js_ge :: "number \<Rightarrow> number \<Rightarrow> bool" where
  "js_ge x y = (x \<noteq> NaN \<and> y \<noteq> NaN \<and> \<not> js_lt x y)"

text \<open>\<open>Math.round\<close>: the nearest integer, a tie going to the larger one.\<close>

fun Math_round :: "number \<Rightarrow> number" where
  "Math_round (Num x) = Num (of_int \<lfloor>x + 1 / 2\<rfloor>)"
| "Math_round x = x"

subsection \<open>Numbers as strings\<close>

text \<open>
  Strings are byte strings; the strings of interest are ASCII. \<open>numberToString\<close> is
  \<open>Number::toString\<close>: the shortest decimal digits that read back as the same double,
  in the notation ECMAScript prescribes. \<open>stringToNumber\<close> is the conversion applied
  to a string operand of an arithmetic operator.
\<close>

definition digitChar :: "int \<Rightarrow> char" where
  "digitChar d = char_of (48 + d)"

function intDigits :: "int \<Rightarrow> string" where
  "intDigits n = (if n < 10 then [digitChar n] else intDigits (n div 10) @ [digitChar (n mod 10)])"
  by pat_completeness auto
termination
  by (relation "measure nat") auto

text \<open>
  The \<open>k\<close>-digit decimals next to \<open>x\<close>, for \<open>10 ^ (n - 1) \<le> x < 10 ^ n\<close>: the one
  that reads back as \<open>x\<close>, the closer one if both do, as digits and decimal exponent.
\<close>

definition shortestCandidate :: "rat \<Rightarrow> int \<Rightarrow> nat \<Rightarrow> (int \<times> int) option" where
  "shortestCandidate x n k =
     (let scale = pow10 (n - int k);
          t = x / scale;
          lo = \<lfloor>t\<rfloor>;
          hi = lo + 1;
          okLo = (fl (of_int lo * scale) = Num x);
          okHi = (fl (of_int hi * scale) = Num x);
          pickHi = (okHi \<and> (\<not> okLo \<or> of_int hi - t < t - of_int lo
                             \<or> (of_int hi - t = t - of_int lo \<and> even hi)))
      in if pickHi then Some (if hi = 10 ^ k then (10 ^ (k - 1), n + 1) else (hi, n))
         else if okLo then Some (lo, n)
         else None)"

fun shortestDigits :: "rat \<Rightarrow> int \<Rightarrow> nat \<Rightarrow> nat \<Rightarrow> int \<times> int" where
  "shortestDigits x n k 0 = (roundHalfEven (x / pow10 (n - int k)), n)"
| "shortestDigits x n k (Suc fuel) =
     (case shortestCandidate x n k of
        Some r \<Rightarrow> r
      | None \<Rightarrow> shortestDigits x n (Suc k) fuel)"

definition formatDigits :: "string \<Rightarrow> int \<Rightarrow> string" where
  "formatDigits ds n =
     (let k = int (length ds)
      in if k \<le> n \<and> n \<le> 21 then ds @ replicate (nat (n - k)) CHR ''0''
         else if 0 < n \<and> n \<le> 21 then take (nat n) ds @ ''.'' @ drop (nat n) ds
         else if - 6 < n \<and> n \<le> 0 then ''0.'' @ replicate (nat (- n)) CHR ''0'' @ ds
         else
           let e = n - 1;
               es = (if 0 \<le> e then ''+'' else ''-'') @ intDigits \<bar>e\<bar>
           in if k = 1 then ds @ ''e'' @ es
              else take 1 ds @ ''.'' @ drop 1 ds @ ''e'' @ es)"

text \<open>Seventeen digits always suffice for a double, so the search stops there.\<close>

definition positiveToString :: "rat \<Rightarrow> string" where
  "positiveToString x =
     (case shortestDigits x (ilog10 x + 1) 1 16 of (s, n) \<Rightarrow> formatDigits (intDigits s) n)"

fun numberToString :: "number \<Rightarrow> string" where
  "numberToString NaN = ''NaN''"
| "numberToString PosInfinity = ''Infinity''"
| "numberToString NegInfinity = ''-Infinity''"
| "numberToString (Num x) =
     (if x = 0 then ''0''
      else if x < 0 then ''-'' @ positiveToString (- x)
      else positiveToString x)"

definition isDigit :: "char \<Rightarrow> bool" where
  "isDigit c = (48 \<le> (of_char c :: nat) \<and> (of_char c :: nat) \<le> 57)"

definition isWhiteSpace :: "char \<Rightarrow> bool" where
  "isWhiteSpace c = (let n = (of_char c :: nat) in (9 \<le> n \<and> n \<le> 13) \<or> n = 32)"

fun digitsValue :: "int \<Rightarrow> string \<Rightarrow> int" where
  "digitsValue acc [] = acc"
| "digitsValue acc (c # cs) = digitsValue (acc * 10 + (of_char c - 48)) cs"

definition parseExponent :: "string \<Rightarrow> int option" where
  "parseExponent s =
     (case s of
        [] \<Rightarrow> Some 0
      | c # t \<Rightarrow>
          if c = CHR ''e'' \<or> c = CHR ''E'' then
            (case t of
               [] \<Rightarrow> None
             | d # u \<Rightarrow>
                 let ds = (if d = CHR ''-'' \<or> d = CHR ''+'' then u else t)
                 in if ds \<noteq> [] \<and> list_all isDigit ds
                    then Some (if d = CHR ''-'' then - digitsValue 0 ds else digitsValue 0 ds)
                    else None)
          else None)"

text \<open>Digits, an optional fraction and an optional exponent; the exact value.\<close>

definition parseUnsignedDecimal :: "string \<Rightarrow> rat option" where
  "parseUnsignedDecimal s =
     (let ip = takeWhile isDigit s;
          r1 = dropWhile isDigit s;
          fp = (case r1 of c # t \<Rightarrow> if c = CHR ''.'' then takeWhile isDigit t else [] | [] \<Rightarrow> []);
          r2 = (case r1 of c # t \<Rightarrow> if c = CHR ''.'' then dropWhile isDigit t else r1 | [] \<Rightarrow> [])
      in if ip = [] \<and> fp = [] then None
         else
           (case parseExponent r2 of
              None \<Rightarrow> None
            | Some e \<Rightarrow>
                Some (of_int (digitsValue 0 (ip @ fp)) * pow10 (e - int (length fp)))))"

definition parseSignedDecimal :: "string \<Rightarrow> rat option" where
  "parseSignedDecimal s =
     (case s of
        [] \<Rightarrow> None
      | c # t \<Rightarrow>
          if c = CHR ''-'' then map_option uminus (parseUnsignedDecimal t)
          else if c = CHR ''+'' then parseUnsignedDecimal t
          else parseUnsignedDecimal s)"

definition radixDigit :: "char \<Rightarrow> int" where
  "radixDigit c =
     (let n = (of_char c :: int)
      in if 48 \<le> n \<and> n \<le> 57 then n - 48
         else if 97 \<le> n \<and> n \<le> 102 then n - 87
         else if 65 \<le> n \<and> n \<le> 70 then n - 55
         else 16)"

fun radixValue :: "int \<Rightarrow> int \<Rightarrow> string \<Rightarrow> int option" where
  "radixValue base acc [] = Some acc"
| "radixValue base acc (c # cs) =
     (if radixDigit c < base then radixValue base (acc * base + radixDigit c) cs else None)"

text \<open>The literals \<open>0x..\<close>, \<open>0o..\<close> and \<open>0b..\<close>.\<close>

definition parseRadixLiteral :: "string \<Rightarrow> int option" where
  "parseRadixLiteral s =
     (case s of
        c0 # c1 # rest \<Rightarrow>
          if c0 = CHR ''0'' \<and> rest \<noteq> [] then
            (if c1 = CHR ''x'' \<or> c1 = CHR ''X'' then radixValue 16 0 rest
             else if c1 = CHR ''o'' \<or> c1 = CHR ''O'' then radixValue 8 0 rest
             else if c1 = CHR ''b'' \<or> c1 = CHR ''B'' then radixValue 2 0 rest
             else None)
          else None
      | _ \<Rightarrow> None)"

definition trimWhiteSpace :: "string \<Rightarrow> string" where
  "trimWhiteSpace s = rev (dropWhile isWhiteSpace (rev (dropWhile isWhiteSpace s)))"

definition stringToNumber :: "string \<Rightarrow> number" where
  "stringToNumber str =
     (let s = trimWhiteSpace str
      in if s = [] then Num 0
         else if s = ''Infinity'' \<or> s = ''+Infinity'' then PosInfinity
         else if s = ''-Infinity'' then NegInfinity
         else
           (case parseRadixLiteral s of
              Some v \<Rightarrow> fl (of_int v)
            | None \<Rightarrow>
                (case parseSignedDecimal s of
                   None \<Rightarrow> NaN
                 | Some v \<Rightarrow> fl v)))"

text \<open>\<open>s < t\<close> on strings: by the first differing code unit, a proper prefix first.\<close>

fun str_lt :: "string \<Rightarrow> string \<Rightarrow> bool" where
  "str_lt [] [] = False"
| "str_lt [] (y # ys) = True"
| "str_lt (x # xs) [] = False"
| "str_lt (x # xs) (y # ys) =
     (if x = y then str_lt xs ys else (of_char x :: nat) < of_char y)"

subsection \<open>Values that are a number or a string\<close>

text \<open>
  The attributes of a \<open>DECIMAL\<close> column are declared as \<open>number\<close> in the models, but
  with the \<open>mysql\<close> dialect and no \<open>dialectOptions\<close> (\<^verbatim>\<open>config/database.ts\<close>) a
  row that is read comes back with such an attribute as a string like \<open>100.00\<close>. The
  operators the models apply to these attributes are therefore the JavaScript operators
  on a value that is a number or a string.
\<close>

datatype jsval = JNum number | JStr string

fun ToNumber :: "jsval \<Rightarrow> number" where
  "ToNumber (JNum x) = x"
| "ToNumber (JStr s) = stringToNumber s"

fun ToString :: "jsval \<Rightarrow> string" where
  "ToString (JNum x) = numberToString x"
| "ToString (JStr s) = s"

text \<open>\<open>a + b\<close>: the sum of two numbers, the concatenation as soon as one is a string.\<close>

fun js_plus :: "jsval \<Rightarrow> jsval \<Rightarrow> jsval" where
  "js_plus (JNum x) (JNum y) = JNum (js_add x y)"
| "js_plus a b = JStr (ToString a @ ToString b)"

text \<open>\<open>a - b\<close> converts both operands to numbers.\<close>

definition js_minus :: "jsval \<Rightarrow> jsval \<Rightarrow> number" where
  "js_minus a b = js_sub (ToNumber a) (ToNumber b)"

text \<open>\<open>a < b\<close> and \<open>a >= b\<close>: two strings are compared as strings, anything else as numbers.\<close>

fun js_lessThan :: "jsval \<Rightarrow> jsval \<Rightarrow> bool" where
  "js_lessThan (JStr s) (JStr t) = str_lt s t"
| "js_lessThan a b = js_lt (ToNumber a) (ToNumber b)"

fun js_greaterEq :: "jsval \<Rightarrow> jsval \<Rightarrow> bool" where
  "js_greaterEq (JStr s) (JStr t) = (\<not> str_lt s t)"
| "js_greaterEq a b = js_ge (ToNumber a) (ToNumber b)"

text \<open>
  express-validator's \<open>isInt({ min: 1 })\<close> and \<open>isFloat({ min: m })\<close> on a number of
  the body: the check reads the number as printed, so an integer from \<open>1e21\<close> on,
  printed with an exponent, is not an integer to it, and no infinity is a float.
\<close>

definition isIntMin1 :: "int \<Rightarrow> bool" where
  "isIntMin1 n \<longleftrightarrow> 1 \<le> n \<and> js_lt (fl (of_int n)) (Num (10 ^ 21))"

definition isFloatMin :: "rat \<Rightarrow> rat \<Rightarrow> bool" where
  "isFloatMin m x \<longleftrightarrow> (case fl x of Num v \<Rightarrow> js_ge (Num v) (fl m) | _ \<Rightarrow> False)"

section \<open>Order service: data model\<close>

text \<open>
  The order service (\<^verbatim>\<open>routes/orders.ts\<close>, \<^verbatim>\<open>models/Order.ts\<close>,
  \<^verbatim>\<open>models/OrderItem.ts\<close>) is embedded as pure functions over an explicit store.
  Amounts are JavaScript numbers. Integer-valued request fields are \<open>int\<close>,
  auto-increment primary keys are \<open>nat\<close>. The \<open>orders\<close> and \<open>order_items\<close>
  tables hold the attribute values the inserts were given. The caller that \<open>authenticateToken\<close>
  leaves in \<open>req.user\<close> is a parameter of every route. Logging has no effect on the
  store or the response and is left out.
\<close>

datatype OrderStatus =
  O_PENDING | O_CONFIRMED | O_PROCESSING | O_SHIPPED | O_DELIVERED | O_CANCELLED | O_REFUNDED

datatype OrderPaymentStatus = OP_PENDING | OP_PAID | OP_FAILED | OP_REFUNDED

datatype Role = Customer | Admin

record Principal =
  userId :: nat
  role :: Role

record Address =
  firstName :: string
  lastName :: string
  address :: string
  city :: string
  state :: string
  zipCode :: string
  country :: string
  phone :: "string option"

record Order =
  o_id :: nat
  o_userId :: nat
  o_orderNumber :: string
  o_status :: OrderStatus
  o_paymentStatus :: OrderPaymentStatus
  o_totalAmount :: number
  o_subtotal :: number
  o_taxAmount :: number
  o_shippingAmount :: number
  o_discountAmount :: number
  o_shippingAddress :: Address
  o_billingAddress :: Address
  o_paymentMethod :: string
  o_notes :: "string option"

text \<open>The attributes of an order item that the route supplies (\<open>validatedItems\<close>).\<close>

record ValidatedItem =
  productId :: int
  productName :: string
  productSku :: string
  productImage :: "string option"
  quantity :: int
  unitPrice :: number
  totalPrice :: number

record OrderItem = ValidatedItem +
  oi_id :: nat
  oi_orderId :: nat

text \<open>An item of the request body; \<open>in_unitPrice\<close> is the decimal literal of the body.\<close>

record ItemInput =
  in_productId :: int
  in_quantity :: int
  in_unitPrice :: rat

record CreateOrderBody =
  b_items :: "ItemInput list"
  b_shippingAddress :: Address
  b_billingAddress :: Address
  b_paymentMethod :: string
  b_notes :: "string option"

record Product =
  name :: string
  sku :: string
  images :: "string list"

text \<open>
  The store of the order service: the \<open>orders\<close> and \<open>order_items\<close> tables with
  their auto-increment counters.
\<close>

record OrderDb =
  orders :: "Order list"
  orderItems :: "OrderItem list"
  nextOrderId :: nat
  nextItemId :: nat

text \<open>
  Everything outside the route handler is a parameter: the product service
  (\<open>None\<close> is a failed HTTP call), the generated order number, and whether each write
  to MySQL or Redis succeeds (a failing write is a rejected promise).
\<close>

record OrderEnv =
  productReply :: "int \<Rightarrow> Product option"
  stockReply :: "int \<Rightarrow> int option"
  generateOrderNumber :: string
  orderCreateOk :: bool
  itemCreateOk :: "ValidatedItem \<Rightarrow> bool"
  orderSaveOk :: bool
  redisOk :: bool

text \<open>The responses of the order routes other than success, by HTTP status and message.\<close>

datatype OrderError =
    ValidationErrors                \<comment> \<open>400, \<open>errors: errors.array()\<close>\<close>
  | InsufficientStock string        \<comment> \<open>400, \<open>Insufficient stock for product: <name>\<close>\<close>
  | OrderNotFound                   \<comment> \<open>404, \<open>Order not found\<close>\<close>
  | OrderCannotBeCancelled          \<comment> \<open>400, \<open>Order cannot be cancelled\<close>\<close>
  | FailedToCreateOrder             \<comment> \<open>500, from the \<open>catch\<close> of \<open>POST /\<close>\<close>
  | FailedToUpdateOrder             \<comment> \<open>500, from the \<open>catch\<close> of \<open>PUT /:id\<close>\<close>
  | FailedToCancelOrder             \<comment> \<open>500, from the \<open>catch\<close> of \<open>POST /:id/cancel\<close>\<close>

section \<open>Order service: creating an order\<close>

definition notEmpty :: "string \<Rightarrow> bool" where
  "notEmpty s \<longleftrightarrow> s \<noteq> []"

definition addressValid :: "Address \<Rightarrow> bool" where
  "addressValid a \<longleftrightarrow>
     notEmpty (firstName a) \<and> notEmpty (lastName a) \<and> notEmpty (address a) \<and>
     notEmpty (city a) \<and> notEmpty (state a) \<and> notEmpty (zipCode a) \<and> notEmpty (country a)"

definition itemInputValid :: "ItemInput \<Rightarrow> bool" where
  "itemInputValid it \<longleftrightarrow>
     isIntMin1 (in_productId it) \<and> isIntMin1 (in_quantity it) \<and> isFloatMin 0 (in_unitPrice it)"

definition createOrderValidation :: "CreateOrderBody \<Rightarrow> bool" where
  "createOrderValidation b \<longleftrightarrow>
     1 \<le> length (b_items b) \<and> list_all itemInputValid (b_items b) \<and>
     addressValid (b_shippingAddress b) \<and> addressValid (b_billingAddress b) \<and>
     notEmpty (b_paymentMethod b)"

text \<open>
  \<open>validateAndGetProductDetails\<close> rethrows a failed call as an \<open>Error\<close>;
  \<open>None\<close> stands for that exception.
\<close>

definition validateAndGetProductDetails :: "OrderEnv \<Rightarrow> int \<Rightarrow> Product option" where
  "validateAndGetProductDetails env pid = productReply env pid"

text \<open>\<open>checkProductStock\<close> catches a failed call and returns \<open>false\<close>.\<close>

definition checkProductStock :: "OrderEnv \<Rightarrow> int \<Rightarrow> int \<Rightarrow> bool" where
  "checkProductStock env pid qty =
     (case stockReply env pid of
        Some availableStock \<Rightarrow> availableStock \<ge> qty
      | None \<Rightarrow> False)"

definition calculateTax :: "number \<Rightarrow> number \<Rightarrow> number" where
  "calculateTax subtotal taxRate =
     js_div (Math_round (js_mul (js_mul subtotal taxRate) (Num 100))) (Num 100)"

text \<open>The default argument \<open>0.08\<close>.\<close>

definition defaultTaxRate :: number where
  "defaultTaxRate = fl (8 / 100)"

definition calculateShipping :: "number \<Rightarrow> ItemInput list \<Rightarrow> number" where
  "calculateShipping subtotal items =
     (if js_ge subtotal (Num 100) then Num 0
      else let baseRate = fl (999 / 100); perItemRate = fl (299 / 100)
           in js_add baseRate (js_mul (js_sub (Num (of_nat (length items))) (Num 1)) perItemRate))"

definition firstImage :: "string list \<Rightarrow> string option" where
  "firstImage imgs = (case imgs of [] \<Rightarrow> None | i # _ \<Rightarrow> Some i)"

text \<open>
  The \<open>for (const item of items)\<close> loop of \<open>POST /\<close>: the accumulator is
  \<open>(subtotal, validatedItems)\<close>; the loop leaves the handler at the first product that
  cannot be fetched (exception, 500) or that has no stock (400).
\<close>

fun validateItems ::
  "OrderEnv \<Rightarrow> ItemInput list \<Rightarrow> number \<times> ValidatedItem list
     \<Rightarrow> OrderError + number \<times> ValidatedItem list"
where
  "validateItems env [] acc = Inr acc"
| "validateItems env (item # rest) (subtotal, validatedItems) =
     (case validateAndGetProductDetails env (in_productId item) of
        None \<Rightarrow> Inl FailedToCreateOrder
      | Some product \<Rightarrow>
          if \<not> checkProductStock env (in_productId item) (in_quantity item)
          then Inl (InsufficientStock (name product))
          else
            let totalPrice = js_mul (fl (of_int (in_quantity item))) (fl (in_unitPrice item))
            in validateItems env rest
                 (js_add subtotal totalPrice,
                  validatedItems @
                    [\<lparr>productId = in_productId item, productName = name product,
                      productSku = sku product, productImage = firstImage (images product),
                      quantity = in_quantity item, unitPrice = fl (in_unitPrice item),
                      totalPrice = totalPrice\<rparr>]))"

text \<open>
  \<open>Promise.all(validatedItems.map(item => OrderItem.create(...)))\<close>: every insert is
  started; the rows whose insert succeeds are stored, in order, with consecutive keys.
\<close>

fun insertItems :: "OrderEnv \<Rightarrow> nat \<Rightarrow> nat \<Rightarrow> ValidatedItem list \<Rightarrow> OrderItem list" where
  "insertItems env orderId nextId [] = []"
| "insertItems env orderId nextId (v # vs) =
     (if itemCreateOk env v
      then ValidatedItem.extend v \<lparr>oi_id = nextId, oi_orderId = orderId\<rparr>
             # insertItems env orderId (Suc nextId) vs
      else insertItems env orderId nextId vs)"

record CreatedOrder =
  co_order :: Order
  co_items :: "OrderItem list"

definition post_order ::
  "OrderEnv \<Rightarrow> Principal \<Rightarrow> CreateOrderBody \<Rightarrow> OrderDb \<Rightarrow> (OrderError + CreatedOrder) \<times> OrderDb"
where
  "post_order env user body db =
     (if \<not> createOrderValidation body then (Inl ValidationErrors, db)
      else
        case validateItems env (b_items body) (Num 0, []) of
          Inl e \<Rightarrow> (Inl e, db)
        | Inr (subtotal, validatedItems) \<Rightarrow>
            let taxAmount = calculateTax subtotal defaultTaxRate;
                shippingAmount = calculateShipping subtotal (b_items body);
                discountAmount = Num 0;
                totalAmount =
                  js_sub (js_add (js_add subtotal taxAmount) shippingAmount) discountAmount
            in if \<not> orderCreateOk env then (Inl FailedToCreateOrder, db)
               else
                 let order = \<lparr>o_id = nextOrderId db, o_userId = userId user,
                              o_orderNumber = generateOrderNumber env,
                              o_status = O_PENDING, o_paymentStatus = OP_PENDING,
                              o_totalAmount = totalAmount, o_subtotal = subtotal,
                              o_taxAmount = taxAmount, o_shippingAmount = shippingAmount,
                              o_discountAmount = discountAmount,
                              o_shippingAddress = b_shippingAddress body,
                              o_billingAddress = b_billingAddress body,
                              o_paymentMethod = b_paymentMethod body,
                              o_notes = b_notes body\<rparr>;
                     newItems = insertItems env (o_id order) (nextItemId db) validatedItems;
                     db' = \<lparr>orders = orders db @ [order],
                            orderItems = orderItems db @ newItems,
                            nextOrderId = Suc (nextOrderId db),
                            nextItemId = nextItemId db + length newItems\<rparr>
                 in if \<not> list_all (itemCreateOk env) validatedItems
                    then (Inl FailedToCreateOrder, db')
                    else if \<not> redisOk env then (Inl FailedToCreateOrder, db')
                    else (Inr \<lparr>co_order = order, co_items = newItems\<rparr>, db'))"

section \<open>Order service: updating and cancelling an order\<close>

record UpdateOrderBody =
  u_status :: "OrderStatus option"
  u_paymentStatus :: "OrderPaymentStatus option"
  u_notes :: "string option"

text \<open>\<open>Order.findOne({ where })\<close>: a customer only finds their own orders.\<close>

definition findOrder :: "Principal \<Rightarrow> nat \<Rightarrow> OrderDb \<Rightarrow> Order option" where
  "findOrder user orderId db =
     find (\<lambda>row. o_id row = orderId \<and> (role user = Admin \<or> o_userId row = userId user)) (orders db)"

definition canBeCancelled :: "Order \<Rightarrow> bool" where
  "canBeCancelled order \<longleftrightarrow> List.member [O_PENDING, O_CONFIRMED] (o_status order)"

definition order_canBeRefunded :: "Order \<Rightarrow> bool" where
  "order_canBeRefunded order \<longleftrightarrow>
     List.member [O_DELIVERED] (o_status order) \<and> o_paymentStatus order = OP_PAID"

text \<open>\<open>order.save()\<close>: the row with the order's primary key is overwritten.\<close>

definition saveOrder :: "Order \<Rightarrow> OrderDb \<Rightarrow> OrderDb" where
  "saveOrder order db =
     db\<lparr>orders := map (\<lambda>row. if o_id row = o_id order then order else row) (orders db)\<rparr>"

definition put_order ::
  "OrderEnv \<Rightarrow> Principal \<Rightarrow> nat \<Rightarrow> UpdateOrderBody \<Rightarrow> OrderDb \<Rightarrow> (OrderError + Order) \<times> OrderDb"
where
  "put_order env user orderId body db =
     (if \<not> 1 \<le> orderId then (Inl ValidationErrors, db)
      else
        case findOrder user orderId db of
          None \<Rightarrow> (Inl OrderNotFound, db)
        | Some order \<Rightarrow>
            if (case u_status body of
                  Some status \<Rightarrow> status = O_CANCELLED \<and> \<not> canBeCancelled order
                | None \<Rightarrow> False)
            then (Inl OrderCannotBeCancelled, db)
            else
              let order1 = (case u_status body of
                              Some status \<Rightarrow> order\<lparr>o_status := status\<rparr>
                            | None \<Rightarrow> order);
                  order2 = (case u_paymentStatus body of
                              Some paymentStatus \<Rightarrow> order1\<lparr>o_paymentStatus := paymentStatus\<rparr>
                            | None \<Rightarrow> order1);
                  order3 = (case u_notes body of
                              Some notes \<Rightarrow> order2\<lparr>o_notes := Some notes\<rparr>
                            | None \<Rightarrow> order2)
              in if \<not> orderSaveOk env then (Inl FailedToUpdateOrder, db)
                 else
                   let db' = saveOrder order3 db
                   in if \<not> redisOk env then (Inl FailedToUpdateOrder, db')
                      else (Inr order3, db'))"

definition cancel_order ::
  "OrderEnv \<Rightarrow> Principal \<Rightarrow> nat \<Rightarrow> OrderDb \<Rightarrow> (OrderError + Order) \<times> OrderDb"
where
  "cancel_order env user orderId db =
     (case findOrder user orderId db of
        None \<Rightarrow> (Inl OrderNotFound, db)
      | Some order \<Rightarrow>
          if \<not> canBeCancelled order then (Inl OrderCannotBeCancelled, db)
          else if \<not> orderSaveOk env then (Inl FailedToCancelOrder, db)
          else
            let order' = order\<lparr>o_status := O_CANCELLED\<rparr>;
                db' = saveOrder order' db
            in if \<not> redisOk env then (Inl FailedToCancelOrder, db')
               else (Inr order', db'))"

section \<open>Payment service: data model\<close>

datatype PaymentStatus =
  P_PENDING | P_PROCESSING | P_SUCCEEDED | P_FAILED | P_CANCELLED | P_REFUNDED
  | P_PARTIALLY_REFUNDED

datatype PaymentMethod = CARD | BANK_TRANSFER | PAYPAL | APPLE_PAY | GOOGLE_PAY

datatype Currency = USD | EUR | GBP | CAD | AUD

record Card =
  brand :: string
  last4 :: string
  expMonth :: int
  expYear :: int

record BankTransfer =
  accountLast4 :: string
  routingNumber :: string

text \<open>
  The JSON column \<open>paymentMethodDetails\<close>: an object with optional keys. The empty
  object \<open>{}\<close> is \<open>noDetails\<close>; a column that was never written is \<open>None\<close> in
  the payment record.
\<close>

record PaymentMethodDetails =
  card :: "Card option"
  bankTransfer :: "BankTransfer option"

definition noDetails :: PaymentMethodDetails where
  "noDetails = \<lparr>card = None, bankTransfer = None\<rparr>"

record Payment =
  p_id :: nat
  p_orderId :: nat
  p_userId :: nat
  stripePaymentIntentId :: "string option"
  stripeChargeId :: "string option"
  amount :: jsval
  currency :: Currency
  p_status :: PaymentStatus
  p_paymentMethod :: PaymentMethod
  paymentMethodDetails :: "PaymentMethodDetails option"
  refundedAmount :: jsval
  failureReason :: "string option"
  metadata :: "(string \<times> string) list"

text \<open>
  The parts of Stripe's objects that the routes read. \<open>pi_charges\<close> is
  \<open>charges.data\<close>, and \<open>None\<close> when the object has no \<open>charges\<close> property:
  reading \<open>paymentIntent.charges.data[0]\<close> then throws a \<open>TypeError\<close>.
\<close>

record Charge =
  ch_id :: string
  ch_card :: "Card option"

record PaymentIntent =
  pi_id :: string
  pi_status :: string
  pi_charges :: "Charge list option"
  pi_last_payment_error :: "string option"
  pi_client_secret :: string

record Refund =
  re_id :: string
  re_status :: string

text \<open>
  The state the payment service acts on: the \<open>payments\<close> table and the trace of
  \<open>updateOrderPaymentStatus\<close> calls, each one a \<open>PUT /api/orders/:id\<close> with the
  given \<open>paymentStatus\<close> sent to the order service.
\<close>

record PaymentWorld =
  payments :: "Payment list"
  nextPaymentId :: nat
  orderSyncCalls :: "(nat \<times> string) list"

text \<open>
  The collaborators of one request: the order service's answer to \<open>getOrderDetails\<close>
  (the owner of the order; \<open>None\<close> is the thrown error), Stripe's answers
  (\<open>None\<close> is a rejected call), whether the writes to MySQL and Redis succeed, and
  \<open>decimalColumn\<close>: the text MySQL stores, and later returns, for a value written to
  a \<open>DECIMAL(10,2)\<close> column (\<open>None\<close> when it rejects the statement).
\<close>

record PaymentEnv =
  orderOwner :: "nat \<Rightarrow> nat option"
  intentCreateReply :: "PaymentIntent option"
  intentRetrieveReply :: "string \<Rightarrow> PaymentIntent option"
  refundCreateReply :: "Refund option"
  decimalColumn :: "jsval \<Rightarrow> string option"
  paymentCreateOk :: bool
  paymentSaveOk :: bool
  paymentRedisOk :: bool

datatype PaymentError =
    PaymentValidationErrors         \<comment> \<open>400, \<open>errors: errors.array()\<close>\<close>
  | AccessDenied                    \<comment> \<open>403, \<open>Access denied to this order\<close>\<close>
  | PaymentAlreadyExists            \<comment> \<open>400, \<open>Payment already exists for this order\<close>\<close>
  | PaymentNotFound                 \<comment> \<open>404, \<open>Payment not found\<close>\<close>
  | PaymentCannotBeRefunded         \<comment> \<open>400, \<open>Payment cannot be refunded\<close>\<close>
  | RefundExceedsRemaining          \<comment> \<open>400, \<open>Refund amount exceeds remaining refundable amount\<close>\<close>
  | FailedToCreatePaymentIntent     \<comment> \<open>500\<close>
  | FailedToConfirmPayment          \<comment> \<open>500\<close>
  | FailedToProcessRefund           \<comment> \<open>500\<close>
  | WebhookSignatureError           \<comment> \<open>400, \<open>Webhook Error: ...\<close>\<close>

section \<open>Payment service: the Payment model\<close>

definition canBeRefunded :: "Payment \<Rightarrow> bool" where
  "canBeRefunded p \<longleftrightarrow>
     p_status p = P_SUCCEEDED \<and> js_lessThan (refundedAmount p) (amount p)"

definition getRemainingRefundableAmount :: "Payment \<Rightarrow> number" where
  "getRemainingRefundableAmount p = js_minus (amount p) (refundedAmount p)"

text \<open>\<open>addRefund\<close> without its final \<open>save()\<close>, which the route model performs.\<close>

definition addRefund :: "number \<Rightarrow> Payment \<Rightarrow> Payment" where
  "addRefund refundAmount p =
     (let p1 = p\<lparr>refundedAmount := js_plus (refundedAmount p) (JNum refundAmount)\<rparr>
      in if js_greaterEq (refundedAmount p1) (amount p1) then p1\<lparr>p_status := P_REFUNDED\<rparr>
         else p1\<lparr>p_status := P_PARTIALLY_REFUNDED\<rparr>)"

definition savePayment :: "Payment \<Rightarrow> PaymentWorld \<Rightarrow> PaymentWorld" where
  "savePayment payment w =
     w\<lparr>payments := map (\<lambda>p. if p_id p = p_id payment then payment else p) (payments w)\<rparr>"

text \<open>
  \<open>updateOrderPaymentStatus\<close> sends the request and swallows any error, so its only
  effect on this service's side is that the call was made.
\<close>

definition updateOrderPaymentStatus :: "nat \<Rightarrow> string \<Rightarrow> PaymentWorld \<Rightarrow> PaymentWorld" where
  "updateOrderPaymentStatus orderId paymentStatus w =
     w\<lparr>orderSyncCalls := orderSyncCalls w @ [(orderId, paymentStatus)]\<rparr>"

section \<open>Payment service: creating a payment intent\<close>

text \<open>\<open>ci_amount\<close> is the decimal literal of the body.\<close>

record CreateIntentBody =
  ci_orderId :: nat
  ci_amount :: rat
  ci_currency :: "Currency option"
  ci_paymentMethod :: PaymentMethod

record CreateIntentResponse =
  cr_id :: nat
  cr_clientSecret :: string
  cr_amount :: jsval
  cr_currency :: Currency
  cr_status :: PaymentStatus

definition createPaymentIntentValidation :: "CreateIntentBody \<Rightarrow> bool" where
  "createPaymentIntentValidation b \<longleftrightarrow> 1 \<le> ci_orderId b \<and> isFloatMin (1 / 2) (ci_amount b)"

text \<open>The statuses listed in the \<open>where\<close> clause of the existing-payment query.\<close>

definition blockingStatuses :: "PaymentStatus list" where
  "blockingStatuses = [P_PENDING, P_PROCESSING, P_SUCCEEDED]"

definition findExistingPayment :: "nat \<Rightarrow> PaymentWorld \<Rightarrow> Payment option" where
  "findExistingPayment orderId w =
     find (\<lambda>p. p_orderId p = orderId \<and> List.member blockingStatuses (p_status p)) (payments w)"

text \<open>
  \<open>Payment.create\<close> returns the instance with the values it was given; the row holds
  what MySQL makes of the two \<open>DECIMAL\<close> attributes.
\<close>

definition create_intent ::
  "PaymentEnv \<Rightarrow> Principal \<Rightarrow> CreateIntentBody \<Rightarrow> PaymentWorld
     \<Rightarrow> (PaymentError + CreateIntentResponse) \<times> PaymentWorld"
where
  "create_intent env user body w =
     (if \<not> createPaymentIntentValidation body then (Inl PaymentValidationErrors, w)
      else
        let orderId = ci_orderId body;
            currency = (case ci_currency body of Some c \<Rightarrow> c | None \<Rightarrow> USD)
        in case orderOwner env orderId of
             None \<Rightarrow> (Inl FailedToCreatePaymentIntent, w)
           | Some owner \<Rightarrow>
               if owner \<noteq> userId user \<and> role user \<noteq> Admin then (Inl AccessDenied, w)
               else
                 (case findExistingPayment orderId w of
                   Some existingPayment \<Rightarrow> (Inl PaymentAlreadyExists, w)
                 | None \<Rightarrow>
                     (case intentCreateReply env of
                        None \<Rightarrow> (Inl FailedToCreatePaymentIntent, w)
                      | Some paymentIntent \<Rightarrow>
                          let payment =
                                \<lparr>p_id = nextPaymentId w, p_orderId = orderId,
                                 p_userId = userId user,
                                 stripePaymentIntentId = Some (pi_id paymentIntent),
                                 stripeChargeId = None, amount = JNum (fl (ci_amount body)),
                                 currency = currency, p_status = P_PENDING,
                                 p_paymentMethod = ci_paymentMethod body,
                                 paymentMethodDetails = None, refundedAmount = JNum (Num 0),
                                 failureReason = None,
                                 metadata = [(''stripeClientSecret'',
                                              pi_client_secret paymentIntent)]\<rparr>
                          in (case (decimalColumn env (amount payment),
                                    decimalColumn env (refundedAmount payment)) of
                                (Some storedAmount, Some storedRefunded) \<Rightarrow>
                                  if \<not> paymentCreateOk env
                                  then (Inl FailedToCreatePaymentIntent, w)
                                  else
                                    let row = payment\<lparr>amount := JStr storedAmount,
                                                        refundedAmount := JStr storedRefunded\<rparr>;
                                        w' = w\<lparr>payments := payments w @ [row],
                                               nextPaymentId := Suc (nextPaymentId w)\<rparr>
                                    in if \<not> paymentRedisOk env
                                       then (Inl FailedToCreatePaymentIntent, w')
                                       else (Inr \<lparr>cr_id = p_id payment,
                                                  cr_clientSecret = pi_client_secret paymentIntent,
                                                  cr_amount = amount payment,
                                                  cr_currency = currency,
                                                  cr_status = p_status payment\<rparr>, w')
                              | _ \<Rightarrow> (Inl FailedToCreatePaymentIntent, w)))))"

section \<open>Payment service: confirming a payment\<close>

record ConfirmBody =
  cf_paymentIntentId :: string
  cf_orderId :: nat

definition confirmPaymentValidation :: "ConfirmBody \<Rightarrow> bool" where
  "confirmPaymentValidation b \<longleftrightarrow> notEmpty (cf_paymentIntentId b) \<and> 1 \<le> cf_orderId b"

text \<open>
  The \<open>findOne\<close> of the confirm route. For an admin the \<open>where\<close> clause carries
  \<open>userId: undefined\<close>, which Sequelize refuses with an exception.
\<close>

datatype PaymentLookup = QueryRejected | NoPayment | FoundPayment Payment

definition findPaymentForConfirm :: "Principal \<Rightarrow> ConfirmBody \<Rightarrow> PaymentWorld \<Rightarrow> PaymentLookup" where
  "findPaymentForConfirm user b w =
     (if role user = Admin then QueryRejected
      else
        case find (\<lambda>p. stripePaymentIntentId p = Some (cf_paymentIntentId b) \<and>
                       p_orderId p = cf_orderId b \<and> p_userId p = userId user) (payments w) of
          None \<Rightarrow> NoPayment
        | Some payment \<Rightarrow> FoundPayment payment)"

definition cardDetails :: "Charge \<Rightarrow> PaymentMethodDetails" where
  "cardDetails charge =
     (case ch_card charge of
        Some c \<Rightarrow> \<lparr>card = Some \<lparr>brand = brand c, last4 = last4 c,
                                 expMonth = expMonth c, expYear = expYear c\<rparr>,
                   bankTransfer = None\<rparr>
      | None \<Rightarrow> noDetails)"

definition errorMessageOr :: "string option \<Rightarrow> string \<Rightarrow> string" where
  "errorMessageOr msg dflt = (case msg of Some m \<Rightarrow> if m = [] then dflt else m | None \<Rightarrow> dflt)"

text \<open>
  The \<open>switch (paymentIntent.status)\<close> of the confirm route: the new status, the
  payment object with the fields the branch assigns, and the local
  \<open>paymentMethodDetails\<close>, which starts as \<open>{}\<close>. \<open>None\<close> is the
  \<open>TypeError\<close> of the \<open>succeeded\<close> branch on an intent without \<open>charges\<close>.
\<close>

definition confirmSwitch ::
  "PaymentIntent \<Rightarrow> Payment \<Rightarrow> (PaymentStatus \<times> Payment \<times> PaymentMethodDetails) option"
where
  "confirmSwitch paymentIntent payment =
     (let st = pi_status paymentIntent
      in if st = ''succeeded'' then
           (case pi_charges paymentIntent of
              None \<Rightarrow> None
            | Some (charge # _) \<Rightarrow>
                Some (P_SUCCEEDED, payment\<lparr>stripeChargeId := Some (ch_id charge)\<rparr>,
                      cardDetails charge)
            | Some [] \<Rightarrow> Some (P_SUCCEEDED, payment, noDetails))
         else if st = ''processing'' then Some (P_PROCESSING, payment, noDetails)
         else if st = ''requires_payment_method'' \<or> st = ''requires_confirmation''
                 \<or> st = ''requires_action'' then Some (P_PENDING, payment, noDetails)
         else if st = ''canceled'' then Some (P_CANCELLED, payment, noDetails)
         else Some (P_FAILED,
               payment\<lparr>failureReason :=
                 Some (errorMessageOr (pi_last_payment_error paymentIntent) ''Unknown error'')\<rparr>,
               noDetails))"

definition confirm_payment ::
  "PaymentEnv \<Rightarrow> Principal \<Rightarrow> ConfirmBody \<Rightarrow> PaymentWorld \<Rightarrow> (PaymentError + Payment) \<times> PaymentWorld"
where
  "confirm_payment env user body w =
     (if \<not> confirmPaymentValidation body then (Inl PaymentValidationErrors, w)
      else
        case findPaymentForConfirm user body w of
          QueryRejected \<Rightarrow> (Inl FailedToConfirmPayment, w)
        | NoPayment \<Rightarrow> (Inl PaymentNotFound, w)
        | FoundPayment payment \<Rightarrow>
            (case intentRetrieveReply env (cf_paymentIntentId body) of
               None \<Rightarrow> (Inl FailedToConfirmPayment, w)
             | Some paymentIntent \<Rightarrow>
                 (case confirmSwitch paymentIntent payment of
                    None \<Rightarrow> (Inl FailedToConfirmPayment, w)
                  | Some (newStatus, payment1, details) \<Rightarrow>
                      let payment2 = payment1\<lparr>p_status := newStatus,
                                              paymentMethodDetails := Some details\<rparr>
                      in if \<not> paymentSaveOk env then (Inl FailedToConfirmPayment, w)
                         else
                           let w1 = savePayment payment2 w;
                               w2 = (if newStatus = P_SUCCEEDED
                                     then updateOrderPaymentStatus (cf_orderId body) ''paid'' w1
                                     else if newStatus = P_FAILED \<or> newStatus = P_CANCELLED
                                     then updateOrderPaymentStatus (cf_orderId body) ''failed'' w1
                                     else w1)
                           in if \<not> paymentRedisOk env then (Inl FailedToConfirmPayment, w2)
                              else (Inr payment2, w2))))"

section \<open>Payment service: refunds\<close>

text \<open>\<open>rf_amount\<close> is the decimal literal of the body, when the body has one.\<close>

record RefundBody =
  rf_amount :: "rat option"
  rf_reason :: "string option"

record RefundResponse =
  rr_refund :: Refund
  rr_amount :: number
  rr_reason :: string
  rr_payment :: Payment

definition refundValidation :: "nat \<Rightarrow> RefundBody \<Rightarrow> bool" where
  "refundValidation paymentId b \<longleftrightarrow>
     1 \<le> paymentId \<and>
     (case rf_amount b of Some a \<Rightarrow> isFloatMin (1 / 100) a | None \<Rightarrow> True)"

definition findPayment :: "Principal \<Rightarrow> nat \<Rightarrow> PaymentWorld \<Rightarrow> Payment option" where
  "findPayment user paymentId w =
     find (\<lambda>p. p_id p = paymentId \<and> (role user = Admin \<or> p_userId p = userId user)) (payments w)"

text \<open>
  \<open>amount || payment.getRemainingRefundableAmount()\<close>: absent, \<open>0\<close> and NaN are
  falsy.
\<close>

definition requestedRefundAmount :: "RefundBody \<Rightarrow> Payment \<Rightarrow> number" where
  "requestedRefundAmount b payment =
     (case rf_amount b of
        Some a \<Rightarrow> if fl a = Num 0 \<or> fl a = NaN then getRemainingRefundableAmount payment
                  else fl a
      | None \<Rightarrow> getRemainingRefundableAmount payment)"

text \<open>
  The response carries the payment object as \<open>addRefund\<close> left it; the row gets the
  new status and what MySQL makes of the new \<open>refundedAmount\<close>.
\<close>

definition post_refund ::
  "PaymentEnv \<Rightarrow> Principal \<Rightarrow> nat \<Rightarrow> RefundBody \<Rightarrow> PaymentWorld
     \<Rightarrow> (PaymentError + RefundResponse) \<times> PaymentWorld"
where
  "post_refund env user paymentId body w =
     (if \<not> refundValidation paymentId body then (Inl PaymentValidationErrors, w)
      else
        case findPayment user paymentId w of
          None \<Rightarrow> (Inl PaymentNotFound, w)
        | Some payment \<Rightarrow>
            if \<not> canBeRefunded payment then (Inl PaymentCannotBeRefunded, w)
            else
              let refundAmount = requestedRefundAmount body payment
              in if js_gt refundAmount (getRemainingRefundableAmount payment)
                 then (Inl RefundExceedsRemaining, w)
                 else
                   (case refundCreateReply env of
                     None \<Rightarrow> (Inl FailedToProcessRefund, w)
                   | Some refund \<Rightarrow>
                       let payment' = addRefund refundAmount payment
                       in if \<not> paymentSaveOk env then (Inl FailedToProcessRefund, w)
                          else
                            (case decimalColumn env (refundedAmount payment') of
                               None \<Rightarrow> (Inl FailedToProcessRefund, w)
                             | Some storedRefunded \<Rightarrow>
                                 let w1 = savePayment
                                            (payment'\<lparr>refundedAmount := JStr storedRefunded\<rparr>) w;
                                     w2 = (if p_status payment' = P_REFUNDED
                                           then updateOrderPaymentStatus (p_orderId payment')
                                                  ''refunded'' w1
                                           else w1)
                                 in if \<not> paymentRedisOk env then (Inl FailedToProcessRefund, w2)
                                    else (Inr \<lparr>rr_refund = refund, rr_amount = refundAmount,
                                               rr_reason = (case rf_reason body of
                                                              Some r \<Rightarrow> r
                                                            | None \<Rightarrow> ''Customer request''),
                                               rr_payment = payment'\<rparr>, w2))))"

section \<open>Payment service: Stripe webhooks\<close>

datatype StripeEvent =
    PaymentIntentSucceeded PaymentIntent      \<comment> \<open>\<open>payment_intent.succeeded\<close>\<close>
  | PaymentIntentPaymentFailed PaymentIntent  \<comment> \<open>\<open>payment_intent.payment_failed\<close>\<close>
  | PaymentIntentCanceled PaymentIntent       \<comment> \<open>\<open>payment_intent.canceled\<close>\<close>
  | ChargeDisputeCreated string               \<comment> \<open>\<open>charge.dispute.created\<close>, the charge\<close>
  | InvoicePaymentSucceeded                   \<comment> \<open>\<open>invoice.payment_succeeded\<close>\<close>
  | InvoicePaymentFailed                      \<comment> \<open>\<open>invoice.payment_failed\<close>\<close>
  | CustomerSubscriptionDeleted               \<comment> \<open>\<open>customer.subscription.deleted\<close>\<close>
  | UnhandledEvent string                     \<comment> \<open>any other event type\<close>

definition findPaymentByIntent :: "string \<Rightarrow> PaymentWorld \<Rightarrow> Payment option" where
  "findPaymentByIntent intentId w =
     find (\<lambda>p. stripePaymentIntentId p = Some intentId) (payments w)"

text \<open>
  Each handler runs inside its own \<open>try\<close>/\<open>catch\<close>: a failing \<open>save()\<close>, or
  an event object without \<open>charges\<close>, ends the handler with the row untouched, and a
  failing \<open>redis.del\<close> comes after every effect.
\<close>

definition handlePaymentIntentSucceeded :: "PaymentEnv \<Rightarrow> PaymentIntent \<Rightarrow> PaymentWorld \<Rightarrow> PaymentWorld" where
  "handlePaymentIntentSucceeded env paymentIntent w =
     (case findPaymentByIntent (pi_id paymentIntent) w of
        None \<Rightarrow> w
      | Some payment \<Rightarrow>
          let payment1 = payment\<lparr>p_status := P_SUCCEEDED\<rparr>
          in (case pi_charges paymentIntent of
                None \<Rightarrow> w
              | Some charges \<Rightarrow>
                  let payment2 =
                        (case charges of
                           charge # _ \<Rightarrow>
                             let payment1a = payment1\<lparr>stripeChargeId := Some (ch_id charge)\<rparr>
                             in (case ch_card charge of
                                   Some c \<Rightarrow>
                                     payment1a\<lparr>paymentMethodDetails := Some (cardDetails charge)\<rparr>
                                 | None \<Rightarrow> payment1a)
                         | [] \<Rightarrow> payment1)
                  in if \<not> paymentSaveOk env then w
                     else updateOrderPaymentStatus (p_orderId payment2) ''paid''
                            (savePayment payment2 w)))"

definition handlePaymentIntentFailed :: "PaymentEnv \<Rightarrow> PaymentIntent \<Rightarrow> PaymentWorld \<Rightarrow> PaymentWorld" where
  "handlePaymentIntentFailed env paymentIntent w =
     (case findPaymentByIntent (pi_id paymentIntent) w of
        None \<Rightarrow> w
      | Some payment \<Rightarrow>
          let payment' = payment\<lparr>p_status := P_FAILED,
                                 failureReason :=
                                   Some (errorMessageOr (pi_last_payment_error paymentIntent)
                                           ''Payment failed'')\<rparr>
          in if \<not> paymentSaveOk env then w
             else updateOrderPaymentStatus (p_orderId payment') ''failed'' (savePayment payment' w))"

definition handlePaymentIntentCanceled :: "PaymentEnv \<Rightarrow> PaymentIntent \<Rightarrow> PaymentWorld \<Rightarrow> PaymentWorld" where
  "handlePaymentIntentCanceled env paymentIntent w =
     (case findPaymentByIntent (pi_id paymentIntent) w of
        None \<Rightarrow> w
      | Some payment \<Rightarrow>
          let payment' = payment\<lparr>p_status := P_CANCELLED\<rparr>
          in if \<not> paymentSaveOk env then w
             else updateOrderPaymentStatus (p_orderId payment') ''failed'' (savePayment payment' w))"

record WebhookRequest =
  signatureValid :: bool
  event :: StripeEvent

text \<open>
  \<open>POST /stripe\<close>: the dispute, invoice and subscription handlers only log. The
  result is \<open>Inr ()\<close> for \<open>{ received: true }\<close>.
\<close>

definition stripe_webhook ::
  "PaymentEnv \<Rightarrow> WebhookRequest \<Rightarrow> PaymentWorld \<Rightarrow> (PaymentError + unit) \<times> PaymentWorld"
where
  "stripe_webhook env req w =
     (if \<not> signatureValid req then (Inl WebhookSignatureError, w)
      else
        (Inr (),
         case event req of
           PaymentIntentSucceeded paymentIntent \<Rightarrow> handlePaymentIntentSucceeded env paymentIntent w
         | PaymentIntentPaymentFailed paymentIntent \<Rightarrow> handlePaymentIntentFailed env paymentIntent w
         | PaymentIntentCanceled paymentIntent \<Rightarrow> handlePaymentIntentCanceled env paymentIntent w
         | ChargeDisputeCreated charge \<Rightarrow> w
         | InvoicePaymentSucceeded \<Rightarrow> w
         | InvoicePaymentFailed \<Rightarrow> w
         | CustomerSubscriptionDeleted \<Rightarrow> w
         | UnhandledEvent ty \<Rightarrow> w))"

section \<open>Concrete requests used in the examples\<close>

definition demoAddress :: Address where
  "demoAddress = \<lparr>firstName = ''John'', lastName = ''Doe'', address = ''123 Main St'',
     city = ''New York'', state = ''NY'', zipCode = ''10001'', country = ''US'', phone = None\<rparr>"

text \<open>The request body of the \<open>Create Order\<close> example in \<^verbatim>\<open>API_DOCUMENTATION.md\<close>.\<close>

definition demoBody :: CreateOrderBody where
  "demoBody = \<lparr>b_items = [\<lparr>in_productId = 1, in_quantity = 2, in_unitPrice = 99999 / 100\<rparr>,
                           \<lparr>in_productId = 2, in_quantity = 1, in_unitPrice = 29999 / 100\<rparr>],
     b_shippingAddress = demoAddress, b_billingAddress = demoAddress,
     b_paymentMethod = ''card'', b_notes = None\<rparr>"

definition demoCatalog :: "int \<Rightarrow> Product option" where
  "demoCatalog pid =
     (if pid = 1 then Some \<lparr>name = ''iPhone 15 Pro'', sku = ''IPH15P'', images = []\<rparr>
      else if pid = 2 then Some \<lparr>name = ''AirPods'', sku = ''APD'', images = [''a.png'']\<rparr>
      else None)"

text \<open>A run in which every collaborator answers and every write succeeds.\<close>

definition demoEnv :: OrderEnv where
  "demoEnv = \<lparr>productReply = demoCatalog, stockReply = (\<lambda>pid. Some 10),
     generateOrderNumber = ''ORD-12345678-ABC123'', orderCreateOk = True,
     itemCreateOk = (\<lambda>v. True), orderSaveOk = True, redisOk = True\<rparr>"

definition demoUser :: Principal where
  "demoUser = \<lparr>userId = 1, role = Customer\<rparr>"

definition emptyOrderDb :: OrderDb where
  "emptyOrderDb = \<lparr>orders = [], orderItems = [], nextOrderId = 1, nextItemId = 1\<rparr>"

text \<open>One unit of product 1 at a unit price of 1.8125, a number that is a double.\<close>

definition halfCentBody :: CreateOrderBody where
  "halfCentBody = demoBody\<lparr>b_items := [\<lparr>in_productId = 1, in_quantity = 1, in_unitPrice = 29 / 16\<rparr>]\<rparr>"

text \<open>The subtotal the loop of \<open>POST /\<close> accumulates: the items' prices, added in order.\<close>

definition sumOfItems :: "ItemInput list \<Rightarrow> number" where
  "sumOfItems items =
     foldl (\<lambda>s it. js_add s (js_mul (fl (of_int (in_quantity it))) (fl (in_unitPrice it))))
       (Num 0) items"

text \<open>
  An item passes the loop of \<open>POST /\<close> when its product can be fetched and its stock
  check returns \<open>true\<close>.
\<close>

definition itemAvailable :: "OrderEnv \<Rightarrow> ItemInput \<Rightarrow> bool" where
  "itemAvailable env it \<longleftrightarrow>
     productReply env (in_productId it) \<noteq> None \<and>
     checkProductStock env (in_productId it) (in_quantity it)"

text \<open>The product service does not answer the stock request for product 2.\<close>

definition stockDownEnv :: OrderEnv where
  "stockDownEnv = demoEnv\<lparr>stockReply := (\<lambda>pid. if pid = 2 then None else Some 10)\<rparr>"

text \<open>Every \<open>OrderItem.create\<close> is rejected; everything else succeeds.\<close>

definition itemWritesFailEnv :: OrderEnv where
  "itemWritesFailEnv = demoEnv\<lparr>itemCreateOk := (\<lambda>v. False)\<rparr>"

text \<open>A stored order of user 1 and a store holding just that order.\<close>

definition demoOrder :: "OrderStatus \<Rightarrow> OrderPaymentStatus \<Rightarrow> Order" where
  "demoOrder st ps =
     \<lparr>o_id = 1, o_userId = 1, o_orderNumber = ''ORD-12345678-ABC123'', o_status = st,
      o_paymentStatus = ps, o_totalAmount = fl (248397 / 100), o_subtotal = fl (229997 / 100),
      o_taxAmount = Num 184, o_shippingAmount = Num 0, o_discountAmount = Num 0,
      o_shippingAddress = demoAddress, o_billingAddress = demoAddress,
      o_paymentMethod = ''card'', o_notes = None\<rparr>"

definition dbWith :: "Order \<Rightarrow> OrderDb" where
  "dbWith order = \<lparr>orders = [order], orderItems = [], nextOrderId = 2, nextItemId = 1\<rparr>"

definition statusOnly :: "OrderStatus \<Rightarrow> UpdateOrderBody" where
  "statusOnly st = \<lparr>u_status = Some st, u_paymentStatus = None, u_notes = None\<rparr>"

definition paymentStatusOnly :: "OrderPaymentStatus \<Rightarrow> UpdateOrderBody" where
  "paymentStatusOnly ps = \<lparr>u_status = None, u_paymentStatus = Some ps, u_notes = None\<rparr>"

section \<open>Concrete payments used in the examples\<close>

text \<open>
  A MySQL server in strict mode, as far as the examples need it: a number or a plain
  decimal string is rounded to two places, half away from zero, and stored if it fits
  ten digits; anything else is rejected.
\<close>

definition roundHalfAway :: "rat \<Rightarrow> int" where
  "roundHalfAway x = (if 0 \<le> x then \<lfloor>x + 1 / 2\<rfloor> else - \<lfloor>- x + 1 / 2\<rfloor>)"

definition centsText :: "int \<Rightarrow> string" where
  "centsText c =
     (if c < 0 then ''-'' else []) @ intDigits (\<bar>c\<bar> div 100) @ ''.'' @
     [digitChar (\<bar>c\<bar> mod 100 div 10), digitChar (\<bar>c\<bar> mod 10)]"

definition decimalText :: "rat \<Rightarrow> string" where
  "decimalText x = centsText (roundHalfAway (x * 100))"

definition strictDecimalColumn :: "jsval \<Rightarrow> string option" where
  "strictDecimalColumn v =
     (case (case v of JNum (Num x) \<Rightarrow> Some x | JNum _ \<Rightarrow> None | JStr s \<Rightarrow> parseSignedDecimal s) of
        None \<Rightarrow> None
      | Some x \<Rightarrow> if \<bar>roundHalfAway (x * 100)\<bar> < 10 ^ 10 then Some (decimalText x) else None)"

text \<open>
  A row of the \<open>payments\<close> table: a payment of 100.00 USD by user 1 for order 1, in a
  given status and with a given refunded amount.
\<close>

definition demoPayment :: "PaymentStatus \<Rightarrow> rat \<Rightarrow> Payment" where
  "demoPayment st refunded =
     \<lparr>p_id = 1, p_orderId = 1, p_userId = 1, stripePaymentIntentId = Some ''pi_1'',
      stripeChargeId = Some ''ch_1'', amount = JStr ''100.00'', currency = USD, p_status = st,
      p_paymentMethod = CARD, paymentMethodDetails = None,
      refundedAmount = JStr (decimalText refunded), failureReason = None, metadata = []\<rparr>"

definition worldWith :: "Payment \<Rightarrow> PaymentWorld" where
  "worldWith p = \<lparr>payments = [p], nextPaymentId = 2, orderSyncCalls = []\<rparr>"

text \<open>
  Stripe accepts refunds; intents are neither created nor found. \<open>gatewayEnv st\<close>
  is the same run with Stripe reporting every intent in status \<open>st\<close>; an intent
  retrieved with the API version the service pins (\<open>2023-10-16\<close>) has no
  \<open>charges\<close>. \<open>demoIntent\<close> is an intent as a webhook event carries it, with one
  card charge.
\<close>

definition demoPaymentEnv :: PaymentEnv where
  "demoPaymentEnv =
     \<lparr>orderOwner = (\<lambda>orderId. Some 1),
      intentCreateReply = None,
      intentRetrieveReply = (\<lambda>i. None),
      refundCreateReply = Some \<lparr>re_id = ''re_1'', re_status = ''succeeded''\<rparr>,
      decimalColumn = strictDecimalColumn,
      paymentCreateOk = True, paymentSaveOk = True, paymentRedisOk = True\<rparr>"

definition visaDetails :: PaymentMethodDetails where
  "visaDetails = \<lparr>card = Some \<lparr>brand = ''visa'', last4 = ''4242'', expMonth = 12, expYear = 2030\<rparr>,
                  bankTransfer = None\<rparr>"

definition demoIntent :: "string \<Rightarrow> string \<Rightarrow> PaymentIntent" where
  "demoIntent intentId st =
     \<lparr>pi_id = intentId, pi_status = st,
      pi_charges = Some [\<lparr>ch_id = ''ch_1'',
                          ch_card = Some \<lparr>brand = ''visa'', last4 = ''4242'', expMonth = 12,
                                          expYear = 2030\<rparr>\<rparr>],
      pi_last_payment_error = None, pi_client_secret = intentId @ ''_secret''\<rparr>"

definition retrievedIntent :: "string \<Rightarrow> string \<Rightarrow> PaymentIntent" where
  "retrievedIntent intentId st = (demoIntent intentId st)\<lparr>pi_charges := None\<rparr>"

definition gatewayEnv :: "string \<Rightarrow> PaymentEnv" where
  "gatewayEnv st = demoPaymentEnv\<lparr>intentRetrieveReply := (\<lambda>i. Some (retrievedIntent i st))\<rparr>"

definition demoConfirm :: ConfirmBody where
  "demoConfirm = \<lparr>cf_paymentIntentId = ''pi_1'', cf_orderId = 1\<rparr>"



section \<open>Sequences of requests\<close>

text \<open>Create-intent requests served one after the other.\<close>

record IntentCall =
  ic_env :: PaymentEnv
  ic_user :: Principal
  ic_body :: CreateIntentBody

fun create_intent_calls :: "IntentCall list \<Rightarrow> PaymentWorld \<Rightarrow> PaymentWorld" where
  "create_intent_calls [] w = w"
| "create_intent_calls (c # cs) w =
     create_intent_calls cs (snd (create_intent (ic_env c) (ic_user c) (ic_body c) w))"

text \<open>The payments of an order that the existing-payment query of \<open>create-intent\<close> matches.\<close>

definition activePaymentsFor :: "nat \<Rightarrow> PaymentWorld \<Rightarrow> Payment list" where
  "activePaymentsFor orderId w =
     filter (\<lambda>p. p_orderId p = orderId \<and> List.member blockingStatuses (p_status p)) (payments w)"

text \<open>Stripe creates the intent \<open>i\<close>; the order service knows the order.\<close>

definition intentEnv :: "string \<Rightarrow> PaymentEnv" where
  "intentEnv i =
     demoPaymentEnv\<lparr>intentCreateReply := Some (demoIntent i ''requires_payment_method'')\<rparr>"

definition demoIntentBody :: CreateIntentBody where
  "demoIntentBody = \<lparr>ci_orderId = 1, ci_amount = 100, ci_currency = None, ci_paymentMethod = CARD\<rparr>"

definition emptyWorld :: PaymentWorld where
  "emptyWorld = \<lparr>payments = [], nextPaymentId = 1, orderSyncCalls = []\<rparr>"

text \<open>
  A customer whose first attempt fails asks for a new intent and then completes the
  first one after all: create-intent, \<open>payment_intent.payment_failed\<close> for the
  first intent, create-intent again, \<open>payment_intent.succeeded\<close> for the first
  intent.
\<close>

definition retryRun :: PaymentWorld where
  "retryRun =
     (let w1 = snd (create_intent (intentEnv ''pi_1'') demoUser demoIntentBody emptyWorld);
          w2 = snd (stripe_webhook demoPaymentEnv
                      \<lparr>signatureValid = True,
                       event = PaymentIntentPaymentFailed
                                 (demoIntent ''pi_1'' ''requires_payment_method'')\<rparr> w1);
          w3 = snd (create_intent (intentEnv ''pi_2'') demoUser demoIntentBody w2);
          w4 = snd (stripe_webhook demoPaymentEnv
                      \<lparr>signatureValid = True,
                       event = PaymentIntentSucceeded (demoIntent ''pi_1'' ''succeeded'')\<rparr> w3)
      in w4)"

definition exceedingRefund :: RefundBody where
  "exceedingRefund = \<lparr>rf_amount = Some 150, rf_reason = None\<rparr>"

section \<open>Verified properties\<close>

subsection \<open>The item loop and the item inserts\<close>

lemma validateItems_Inr:
  "validateItems env items (s, acc) = Inr (s', acc') \<Longrightarrow>
     s' = foldl (\<lambda>s it. js_add s (js_mul (fl (of_int (in_quantity it))) (fl (in_unitPrice it))))
            s items \<and>
     length acc' = length acc + length items \<and> list_all (itemAvailable env) items"
proof (induction items arbitrary: s acc)
  case Nil
  then show ?case by simp
next
  case (Cons item rest)
  from Cons.prems obtain product where
    p: "productReply env (in_productId item) = Some product"
    and st: "checkProductStock env (in_productId item) (in_quantity item)"
    and rest: "validateItems env rest
        (js_add s (js_mul (fl (of_int (in_quantity item))) (fl (in_unitPrice item))),
         acc @ [\<lparr>productId = in_productId item, productName = name product,
                 productSku = sku product, productImage = firstImage (images product),
                 quantity = in_quantity item, unitPrice = fl (in_unitPrice item),
                 totalPrice = js_mul (fl (of_int (in_quantity item))) (fl (in_unitPrice item))\<rparr>])
        = Inr (s', acc')"
    by (auto simp: validateAndGetProductDetails_def Let_def split: option.splits if_splits)
  from Cons.IH[OF rest] p st show ?case
    by (simp add: itemAvailable_def)
qed

lemma validateItems_Inl:
  "\<not> list_all (itemAvailable env) items \<Longrightarrow> isl (validateItems env items acc)"
proof (induction items arbitrary: acc)
  case Nil
  then show ?case by simp
next
  case (Cons item rest)
  obtain s vs where acc: "acc = (s, vs)" by (cases acc)
  from Cons show ?case unfolding acc
    by (auto simp: validateAndGetProductDetails_def itemAvailable_def Let_def
             split: option.splits)
qed

lemma insertItems_orderId:
  "list_all (\<lambda>i. oi_orderId i = orderId) (insertItems env orderId n vs)"
  by (induction vs arbitrary: n) (auto simp: ValidatedItem.extend_def)

lemma insertItems_length:
  "length (insertItems env orderId n vs) = length (filter (itemCreateOk env) vs)"
  by (induction vs arbitrary: n) auto

lemma validateItems_prefix:
  "list_all (itemAvailable env) pre \<Longrightarrow>
     \<exists>acc'. validateItems env (pre @ rest) acc = validateItems env rest acc'"
proof (induction pre arbitrary: acc)
  case Nil
  show ?case by (rule exI[of _ acc]) simp
next
  case (Cons item pre)
  obtain s vs where acc: "acc = (s, vs)" by (cases acc)
  from Cons.prems have pre: "list_all (itemAvailable env) pre"
    and av: "itemAvailable env item" by simp_all
  from av obtain product where
    p: "productReply env (in_productId item) = Some product"
    and st: "checkProductStock env (in_productId item) (in_quantity item)"
    by (auto simp: itemAvailable_def)
  from Cons.IH[OF pre] p st show ?case unfolding acc
    by (simp add: validateAndGetProductDetails_def Let_def)
qed

lemma validateItems_total:
  "list_all (itemAvailable env) items \<Longrightarrow> \<exists>r. validateItems env items acc = Inr r"
  using validateItems_prefix[of env items "[]" acc] by simp

text \<open>The documented request, evaluated.\<close>

lemma demo_valid: "createOrderValidation demoBody"
  by code_simp

lemma demo_available: "list_all (itemAvailable demoEnv) (b_items demoBody)"
  by code_simp

lemma demo_created:
  "case post_order demoEnv demoUser demoBody emptyOrderDb of
     (Inr c, db') \<Rightarrow>
       o_subtotal (co_order c) = Num (2528843758535967 / 1099511627776) \<and>
       o_taxAmount (co_order c) = Num 184 \<and> o_shippingAmount (co_order c) = Num 0 \<and>
       o_totalAmount (co_order c) = Num (2731153898046751 / 1099511627776)
   | (Inl e, db') \<Rightarrow> False"
  by code_simp

lemma demo_created_ex:
  "\<exists>c db'. post_order demoEnv demoUser demoBody emptyOrderDb = (Inr c, db') \<and>
     o_subtotal (co_order c) = Num (2528843758535967 / 1099511627776) \<and>
     o_taxAmount (co_order c) = Num 184 \<and> o_shippingAmount (co_order c) = Num 0 \<and>
     o_totalAmount (co_order c) = Num (2731153898046751 / 1099511627776)"
  using demo_created by (auto split: prod.splits sum.splits)

subsection \<open>Order creation\<close>

text \<open>
  Claim C1, as the code has it. \<open>POST /\<close> writes the Order row with \<open>Order.create\<close>
  and then each OrderItem row with its own \<open>OrderItem.create\<close>; there is no
  transaction around the two steps. A request that fails before the Order row is written
  (a validation error, a product that cannot be fetched, a failed stock check, a rejected
  order insert) leaves the store unchanged. Otherwise exactly one Order row is added,
  every added item row references it, and a request answered with success has stored one
  item row per requested line; a request that fails after the order insert answers 500
  and may have stored fewer item rows.
\<close>

theorem order_creation_persistence:
  assumes "post_order env user body db = (res, db')"
  shows "if \<not> createOrderValidation body \<or> \<not> list_all (itemAvailable env) (b_items body)
            \<or> \<not> orderCreateOk env
         then db' = db \<and> isl res
         else \<exists>ord rows.
                orders db' = orders db @ [ord] \<and> orderItems db' = orderItems db @ rows \<and>
                list_all (\<lambda>i. oi_orderId i = o_id ord) rows \<and>
                (case res of
                   Inr created \<Rightarrow> co_order created = ord \<and> co_items created = rows \<and>
                                  length rows = length (b_items body)
                 | Inl e \<Rightarrow> e = FailedToCreateOrder \<and> length rows \<le> length (b_items body))"
proof (cases "createOrderValidation body \<and> list_all (itemAvailable env) (b_items body)")
  case False
  then have "\<not> createOrderValidation body \<or> isl (validateItems env (b_items body) (Num 0, []))"
    using validateItems_Inl by blast
  with assms False show ?thesis
    by (auto simp: post_order_def split: if_splits sum.splits)
next
  case True
  then obtain s vs where v: "validateItems env (b_items body) (Num 0, []) = Inr (s, vs)"
    using validateItems_total[of env "b_items body" "(Num 0, [])"] by (cases) auto
  from validateItems_Inr[OF v] have len: "length vs = length (b_items body)" by simp
  show ?thesis
  proof (cases "orderCreateOk env")
    case False
    with assms True v show ?thesis by (auto simp: post_order_def Let_def)
  next
    case ok: True
    have l1: "length (insertItems env (nextOrderId db) (nextItemId db) vs) \<le> length vs"
      by (simp add: insertItems_length)
    have l2: "list_all (itemCreateOk env) vs \<Longrightarrow>
          length (insertItems env (nextOrderId db) (nextItemId db) vs) = length vs"
      by (simp add: insertItems_length list_all_iff)
    from assms True v ok l1 l2 len
      insertItems_orderId[of "nextOrderId db" env "nextItemId db" vs]
    show ?thesis
      by (auto simp: post_order_def Let_def split: if_splits)
  qed
qed

text \<open>The theorem at the documented request, where every write succeeds.\<close>

theorem order_creation_persistence_witness:
  "createOrderValidation demoBody \<and> list_all (itemAvailable demoEnv) (b_items demoBody) \<and>
   orderCreateOk demoEnv \<and>
   (\<exists>c ord rows.
      fst (post_order demoEnv demoUser demoBody emptyOrderDb) = Inr c \<and>
      orders (snd (post_order demoEnv demoUser demoBody emptyOrderDb)) = [ord] \<and>
      orderItems (snd (post_order demoEnv demoUser demoBody emptyOrderDb)) = rows \<and>
      co_order c = ord \<and> co_items c = rows \<and> length rows = 2 \<and>
      list_all (\<lambda>i. oi_orderId i = o_id ord) rows)"
proof -
  note h1 = demo_valid and h2 = demo_available
  have h3: "orderCreateOk demoEnv" by (simp add: demoEnv_def)
  from demo_created_ex obtain c db' where
    ev: "post_order demoEnv demoUser demoBody emptyOrderDb = (Inr c, db')" by blast
  have len: "length (b_items demoBody) = 2" by (simp add: demoBody_def)
  from order_creation_persistence[OF ev] h1 h2 h3 len
  have "\<exists>ord rows. orders db' = orders emptyOrderDb @ [ord] \<and>
          orderItems db' = orderItems emptyOrderDb @ rows \<and>
          list_all (\<lambda>i. oi_orderId i = o_id ord) rows \<and>
          co_order c = ord \<and> co_items c = rows \<and> length rows = 2"
    by simp
  with ev h1 h2 h3 show ?thesis by (auto simp: emptyOrderDb_def)
qed

text \<open>
  Claim C1 as stated does not hold: when the item inserts are rejected after the order
  insert succeeded, the request answers 500 and order 1 stays stored without any item.
\<close>

theorem order_without_items_counterexample:
  "fst (post_order itemWritesFailEnv demoUser demoBody emptyOrderDb) = Inl FailedToCreateOrder \<and>
   map o_id (orders (snd (post_order itemWritesFailEnv demoUser demoBody emptyOrderDb))) = [1] \<and>
   orderItems (snd (post_order itemWritesFailEnv demoUser demoBody emptyOrderDb)) = []"
  by code_simp

text \<open>
  Claim C6, as the code has it. The amounts of a created order are computed in double
  arithmetic, every product, sum and quotient rounded to the nearest double:
  \<open>subtotal\<close> is the sum, in item order, of quantity times unit price; \<open>taxAmount\<close>
  is \<open>Math.round(subtotal * 0.08 * 100) / 100\<close>, the rounded product rounded half-up
  to whole cents; \<open>shippingAmount\<close> is 0 from a subtotal of 100 on and
  \<open>9.99 + (items - 1) * 2.99\<close> below it; \<open>discountAmount\<close> is 0 and
  \<open>totalAmount\<close> is \<open>subtotal + taxAmount + shippingAmount - discountAmount\<close>.
\<close>

theorem order_creation_amounts:
  assumes "post_order env user body db = (Inr created, db')"
  shows "orders db' = orders db @ [co_order created] \<and>
         o_subtotal (co_order created) = sumOfItems (b_items body) \<and>
         o_taxAmount (co_order created) =
           js_div (Math_round (js_mul (js_mul (o_subtotal (co_order created)) (fl (8 / 100)))
                                 (Num 100))) (Num 100) \<and>
         o_shippingAmount (co_order created) =
           (if js_ge (o_subtotal (co_order created)) (Num 100) then Num 0
            else js_add (fl (999 / 100))
                   (js_mul (js_sub (Num (of_nat (length (b_items body)))) (Num 1))
                      (fl (299 / 100)))) \<and>
         o_discountAmount (co_order created) = Num 0 \<and>
         o_totalAmount (co_order created) =
           js_sub (js_add (js_add (o_subtotal (co_order created)) (o_taxAmount (co_order created)))
                     (o_shippingAmount (co_order created)))
             (o_discountAmount (co_order created))"
proof -
  from assms obtain s vs where v: "validateItems env (b_items body) (Num 0, []) = Inr (s, vs)"
    by (auto simp: post_order_def split: if_splits sum.splits)
  from validateItems_Inr[OF v] have s: "s = sumOfItems (b_items body)"
    by (simp add: sumOfItems_def)
  from assms v have o: "o_subtotal (co_order created) = s"
    "o_taxAmount (co_order created) = calculateTax s defaultTaxRate"
    "o_shippingAmount (co_order created) = calculateShipping s (b_items body)"
    "o_discountAmount (co_order created) = Num 0"
    "o_totalAmount (co_order created) =
       js_sub (js_add (js_add s (calculateTax s defaultTaxRate))
                 (calculateShipping s (b_items body))) (Num 0)"
    "orders db' = orders db @ [co_order created]"
    by (auto simp: post_order_def Let_def split: if_splits)
  show ?thesis
    unfolding o by (simp add: s calculateTax_def defaultTaxRate_def calculateShipping_def Let_def)
qed

text \<open>
  The request with unit prices 999.99 (quantity 2) and 299.99 (quantity 1): subtotal
  2299.9700000000003, tax 184, shipping 0, total 2483.9700000000003.
\<close>

theorem order_creation_amounts_witness:
  "\<exists>c db'. post_order demoEnv demoUser demoBody emptyOrderDb = (Inr c, db') \<and>
     orders db' = [co_order c] \<and>
     o_subtotal (co_order c) = sumOfItems (b_items demoBody) \<and>
     numberToString (o_subtotal (co_order c)) = ''2299.9700000000003'' \<and>
     o_taxAmount (co_order c) = Num 184 \<and>
     o_shippingAmount (co_order c) = Num 0 \<and> o_discountAmount (co_order c) = Num 0 \<and>
     numberToString (o_totalAmount (co_order c)) = ''2483.9700000000003''"
proof -
  from demo_created_ex obtain c db' where
    ev: "post_order demoEnv demoUser demoBody emptyOrderDb = (Inr c, db')"
    and vals: "o_subtotal (co_order c) = Num (2528843758535967 / 1099511627776)"
      "o_taxAmount (co_order c) = Num 184" "o_shippingAmount (co_order c) = Num 0"
      "o_totalAmount (co_order c) = Num (2731153898046751 / 1099511627776)"
    by blast
  have str: "numberToString (Num (2528843758535967 / 1099511627776)) = ''2299.9700000000003''"
    "numberToString (Num (2731153898046751 / 1099511627776)) = ''2483.9700000000003''"
    by code_simp+
  from order_creation_amounts[OF ev]
  have "orders db' = orders emptyOrderDb @ [co_order c]"
    "o_subtotal (co_order c) = sumOfItems (b_items demoBody)"
    "o_discountAmount (co_order c) = Num 0"
    by simp_all
  with ev vals str show ?thesis by (simp add: emptyOrderDb_def)
qed

text \<open>
  Claim C6 as stated does not hold. For one unit at 1.8125 the exact tax is 0.145, which
  rounds half-up to 0.15; the doubles give \<open>1.8125 * 0.08 * 100 = 14.499999999999998\<close>
  and the order is created with a tax of 0.14. In the documented request the subtotal is
  not the double that 2299.97 denotes but the next one above it.
\<close>

theorem tax_rounding_counterexample:
  "(case post_order demoEnv demoUser halfCentBody emptyOrderDb of
      (Inr c, db') \<Rightarrow>
        o_subtotal (co_order c) = Num (29 / 16) \<and>
        o_taxAmount (co_order c) = fl (14 / 100) \<and>
        numberToString (o_taxAmount (co_order c)) = ''0.14''
    | (Inl e, db') \<Rightarrow> False) \<and>
   \<lfloor>(29 / 16 :: rat) * (8 / 100) * 100 + 1 / 2\<rfloor> = 15 \<and>
   sumOfItems (b_items demoBody) = Num (2528843758535967 / 1099511627776) \<and>
   sumOfItems (b_items demoBody) \<noteq> fl (229997 / 100)"
  by code_simp

text \<open>
  Claim C8. \<open>checkProductStock\<close> returns \<open>false\<close> when the call to the product
  service fails. If the loop reaches an item whose product can be fetched and whose stock
  request fails, the request is answered with 400 \<open>Insufficient stock\<close> naming that
  product, not with the 500 of the handler's \<open>catch\<close>, and the store is unchanged.
\<close>

theorem stock_check_fails_closed:
  assumes "createOrderValidation body"
    and "b_items body = pre @ item # post"
    and "list_all (itemAvailable env) pre"
    and "productReply env (in_productId item) = Some product"
    and "stockReply env (in_productId item) = None"
  shows "\<not> checkProductStock env (in_productId item) (in_quantity item) \<and>
         post_order env user body db = (Inl (InsufficientStock (name product)), db)"
proof -
  have st: "\<not> checkProductStock env (in_productId item) (in_quantity item)"
    using assms(5) by (simp add: checkProductStock_def)
  from validateItems_prefix[OF assms(3)] obtain acc' where
    "validateItems env (b_items body) (Num 0, []) = validateItems env (item # post) acc'"
    unfolding assms(2) by blast
  moreover obtain s vs where "acc' = (s, vs)" by (cases acc')
  ultimately have
    "validateItems env (b_items body) (Num 0, []) = Inl (InsufficientStock (name product))"
    using st assms(4) by (simp add: validateAndGetProductDetails_def)
  with assms(1) st show ?thesis by (simp add: post_order_def)
qed

text \<open>The documented request when the stock request for product 2 fails.\<close>

theorem stock_check_fails_closed_witness:
  "createOrderValidation demoBody \<and>
   b_items demoBody = [\<lparr>in_productId = 1, in_quantity = 2, in_unitPrice = 99999 / 100\<rparr>]
      @ \<lparr>in_productId = 2, in_quantity = 1, in_unitPrice = 29999 / 100\<rparr> # [] \<and>
   stockReply stockDownEnv 2 = None \<and>
   \<not> checkProductStock stockDownEnv 2 1 \<and>
   post_order stockDownEnv demoUser demoBody emptyOrderDb = (Inl (InsufficientStock ''AirPods''), emptyOrderDb)"
proof -
  let ?i1 = "\<lparr>in_productId = 1, in_quantity = 2, in_unitPrice = 99999 / 100\<rparr>"
  let ?i2 = "\<lparr>in_productId = 2, in_quantity = 1, in_unitPrice = 29999 / 100\<rparr>"
  let ?p = "\<lparr>name = ''AirPods'', sku = ''APD'', images = [''a.png'']\<rparr>"
  note h1 = demo_valid
  have h2: "b_items demoBody = [?i1] @ ?i2 # []" by (simp add: demoBody_def)
  have h3: "list_all (itemAvailable stockDownEnv) [?i1]"
    by (simp add: itemAvailable_def stockDownEnv_def checkProductStock_def demoEnv_def
          demoCatalog_def)
  have h4: "productReply stockDownEnv (in_productId ?i2) = Some ?p"
    by (simp add: stockDownEnv_def demoEnv_def demoCatalog_def)
  have h5: "stockReply stockDownEnv (in_productId ?i2) = None"
    by (simp add: stockDownEnv_def demoEnv_def)
  from stock_check_fails_closed[OF h1 h2 h3 h4 h5, of demoUser emptyOrderDb] h1 h2 h5
  show ?thesis by simp
qed

subsection \<open>Updating and cancelling an order\<close>

lemma find_map_replace:
  assumes "find P xs = Some x" and "P y" and "key y = key x"
  shows "find P (map (\<lambda>r. if key r = key x then y else r) xs) = Some y"
  using assms
proof (induction xs)
  case Nil
  then show ?case by simp
next
  case (Cons h xs)
  then show ?case by (cases "P h") auto
qed

lemma findOrder_saveOrder:
  assumes "findOrder user orderId db = Some order"
    and "o_id order' = o_id order" and "o_userId order' = o_userId order"
  shows "findOrder user orderId (saveOrder order' db) = Some order'"
proof -
  let ?P = "\<lambda>row. o_id row = orderId \<and> (role user = Admin \<or> o_userId row = userId user)"
  from assms(1) have f: "find ?P (orders db) = Some order" by (simp add: findOrder_def)
  then have "?P order" by (auto simp: find_Some_iff)
  with assms(2,3) have p: "?P order'" by simp
  from find_map_replace[of ?P "orders db" order order' o_id, OF f p assms(2)]
  show ?thesis by (simp add: findOrder_def saveOrder_def assms(2))
qed

lemmas update_eval_defs =
  put_order_def cancel_order_def findOrder_def canBeCancelled_def saveOrder_def Let_def
  demoOrder_def dbWith_def statusOnly_def paymentStatusOnly_def demoEnv_def demoUser_def

text \<open>
  Claim C4, as the code has it. The only transition rule in the order service is
  \<open>canBeCancelled\<close>. For an order that is found and whose status is neither
  \<open>pending\<close> nor \<open>confirmed\<close> (so in particular for a cancelled, refunded or
  delivered one), \<open>POST /:id/cancel\<close> and a \<open>PUT /:id\<close> that asks for status
  \<open>cancelled\<close> answer 400 \<open>Order cannot be cancelled\<close> and leave the store
  unchanged. A \<open>PUT /:id\<close> that asks for any other status is applied whatever the
  current status is.
\<close>

theorem status_change_guards:
  assumes "findOrder user orderId db = Some order" and "1 \<le> orderId"
  shows "(o_status order \<noteq> O_PENDING \<and> o_status order \<noteq> O_CONFIRMED \<longrightarrow>
            cancel_order env user orderId db = (Inl OrderCannotBeCancelled, db) \<and>
            put_order env user orderId (body\<lparr>u_status := Some O_CANCELLED\<rparr>) db
              = (Inl OrderCannotBeCancelled, db)) \<and>
         (st \<noteq> O_CANCELLED \<and> orderSaveOk env \<and> redisOk env \<longrightarrow>
            (\<exists>order'. put_order env user orderId (body\<lparr>u_status := Some st\<rparr>) db
                        = (Inr order', saveOrder order' db) \<and>
                      o_status order' = st \<and>
                      findOrder user orderId (saveOrder order' db) = Some order'))"
proof (intro conjI impI)
  assume "o_status order \<noteq> O_PENDING \<and> o_status order \<noteq> O_CONFIRMED"
  then have nc: "\<not> canBeCancelled order" by (simp add: canBeCancelled_def)
  with assms show "cancel_order env user orderId db = (Inl OrderCannotBeCancelled, db)"
    by (simp add: cancel_order_def)
  from nc assms show "put_order env user orderId (body\<lparr>u_status := Some O_CANCELLED\<rparr>) db
              = (Inl OrderCannotBeCancelled, db)"
    by (simp add: put_order_def)
next
  assume a: "st \<noteq> O_CANCELLED \<and> orderSaveOk env \<and> redisOk env"
  define o2 where "o2 = (case u_paymentStatus body of
       Some paymentStatus \<Rightarrow> order\<lparr>o_status := st, o_paymentStatus := paymentStatus\<rparr>
     | None \<Rightarrow> order\<lparr>o_status := st\<rparr>)"
  define o3 where "o3 = (case u_notes body of Some notes \<Rightarrow> o2\<lparr>o_notes := Some notes\<rparr> | None \<Rightarrow> o2)"
  have k: "o_id o3 = o_id order" "o_userId o3 = o_userId order" "o_status o3 = st"
    by (auto simp: o3_def o2_def split: option.splits)
  from assms a have "put_order env user orderId (body\<lparr>u_status := Some st\<rparr>) db
                        = (Inr o3, saveOrder o3 db)"
    by (auto simp: put_order_def Let_def o3_def o2_def split: option.splits)
  with k findOrder_saveOrder[OF assms(1) k(1,2)]
  show "\<exists>order'. put_order env user orderId (body\<lparr>u_status := Some st\<rparr>) db
                        = (Inr order', saveOrder order' db) \<and>
                      o_status order' = st \<and>
                      findOrder user orderId (saveOrder order' db) = Some order'"
    by blast
qed

text \<open>
  An already cancelled order: cancelling it again is refused by both routes, and the
  update route still moves it to \<open>shipped\<close>.
\<close>

theorem status_change_guards_witness:
  "findOrder demoUser 1 (dbWith (demoOrder O_CANCELLED OP_PENDING))
     = Some (demoOrder O_CANCELLED OP_PENDING) \<and>
   cancel_order demoEnv demoUser 1 (dbWith (demoOrder O_CANCELLED OP_PENDING))
     = (Inl OrderCannotBeCancelled, dbWith (demoOrder O_CANCELLED OP_PENDING)) \<and>
   put_order demoEnv demoUser 1 (statusOnly O_CANCELLED) (dbWith (demoOrder O_CANCELLED OP_PENDING))
     = (Inl OrderCannotBeCancelled, dbWith (demoOrder O_CANCELLED OP_PENDING)) \<and>
   (\<exists>order'. fst (put_order demoEnv demoUser 1 (statusOnly O_SHIPPED)
                    (dbWith (demoOrder O_CANCELLED OP_PENDING))) = Inr order' \<and>
              o_status order' = O_SHIPPED)"
proof -
  let ?db = "dbWith (demoOrder O_CANCELLED OP_PENDING)"
  have h1: "findOrder demoUser 1 ?db = Some (demoOrder O_CANCELLED OP_PENDING)"
    by (simp add: update_eval_defs)
  have h2: "(1::nat) \<le> 1" by simp
  have s: "o_status (demoOrder O_CANCELLED OP_PENDING) = O_CANCELLED" by (simp add: demoOrder_def)
  have e: "orderSaveOk demoEnv" "redisOk demoEnv" by (simp_all add: demoEnv_def)
  have b: "statusOnly O_CANCELLED = (statusOnly O_CANCELLED)\<lparr>u_status := Some O_CANCELLED\<rparr>"
    "statusOnly O_SHIPPED = (statusOnly O_CANCELLED)\<lparr>u_status := Some O_SHIPPED\<rparr>"
    by (simp_all add: statusOnly_def)
  from status_change_guards[OF h1 h2, where st = O_SHIPPED and env = demoEnv
      and body = "statusOnly O_CANCELLED"] s e
  have "cancel_order demoEnv demoUser 1 ?db = (Inl OrderCannotBeCancelled, ?db)"
    "put_order demoEnv demoUser 1 (statusOnly O_CANCELLED) ?db = (Inl OrderCannotBeCancelled, ?db)"
    "\<exists>order'. fst (put_order demoEnv demoUser 1 (statusOnly O_SHIPPED) ?db) = Inr order' \<and>
              o_status order' = O_SHIPPED"
    unfolding b[symmetric] by auto
  with h1 show ?thesis by simp
qed

text \<open>
  Claim C4 as stated does not hold: the update route moves a delivered order back to
  \<open>pending\<close>, a transition outside the edge set.
\<close>

theorem update_ignores_transition_rules_counterexample:
  "fst (put_order demoEnv demoUser 1 (statusOnly O_PENDING) (dbWith (demoOrder O_DELIVERED OP_PAID)))
     = Inr (demoOrder O_PENDING OP_PAID) \<and>
   orders (snd (put_order demoEnv demoUser 1 (statusOnly O_PENDING)
                  (dbWith (demoOrder O_DELIVERED OP_PAID))))
     = [demoOrder O_PENDING OP_PAID]"
  by (simp add: update_eval_defs)

text \<open>
  Claim C5, as the code has it. A successful \<open>PUT /:id\<close> stores the
  \<open>paymentStatus\<close> of the request body when the body has one, and keeps the stored
  value otherwise.
\<close>

theorem update_payment_status:
  assumes "findOrder user orderId db = Some order"
    and "put_order env user orderId body db = (Inr order', db')"
  shows "o_paymentStatus order' =
           (case u_paymentStatus body of Some ps \<Rightarrow> ps | None \<Rightarrow> o_paymentStatus order) \<and>
         findOrder user orderId db' = Some order'"
proof -
  define o1 where "o1 = (case u_status body of Some status \<Rightarrow> order\<lparr>o_status := status\<rparr> | None \<Rightarrow> order)"
  define o2 where "o2 = (case u_paymentStatus body of
       Some paymentStatus \<Rightarrow> o1\<lparr>o_paymentStatus := paymentStatus\<rparr> | None \<Rightarrow> o1)"
  define o3 where "o3 = (case u_notes body of Some notes \<Rightarrow> o2\<lparr>o_notes := Some notes\<rparr> | None \<Rightarrow> o2)"
  have k: "o_id o3 = o_id order" "o_userId o3 = o_userId order"
    "o_paymentStatus o3 = (case u_paymentStatus body of Some ps \<Rightarrow> ps | None \<Rightarrow> o_paymentStatus order)"
    by (auto simp: o3_def o2_def o1_def split: option.splits)
  from assms have "order' = o3 \<and> db' = saveOrder o3 db"
    by (auto simp: put_order_def Let_def o3_def o2_def o1_def split: if_splits option.splits)
  with k findOrder_saveOrder[OF assms(1) k(1,2)] show ?thesis by simp
qed

text \<open>The owner of a pending order sets its payment status to \<open>failed\<close>.\<close>

theorem update_payment_status_witness:
  "findOrder demoUser 1 (dbWith (demoOrder O_PENDING OP_PENDING)) = Some (demoOrder O_PENDING OP_PENDING) \<and>
   put_order demoEnv demoUser 1 (paymentStatusOnly OP_FAILED) (dbWith (demoOrder O_PENDING OP_PENDING))
     = (Inr (demoOrder O_PENDING OP_FAILED), dbWith (demoOrder O_PENDING OP_FAILED)) \<and>
   o_paymentStatus (demoOrder O_PENDING OP_FAILED) = OP_FAILED \<and>
   findOrder demoUser 1 (dbWith (demoOrder O_PENDING OP_FAILED)) = Some (demoOrder O_PENDING OP_FAILED)"
proof -
  let ?db = "dbWith (demoOrder O_PENDING OP_PENDING)"
  have h1: "findOrder demoUser 1 ?db = Some (demoOrder O_PENDING OP_PENDING)"
    by (simp add: update_eval_defs)
  have h2: "put_order demoEnv demoUser 1 (paymentStatusOnly OP_FAILED) ?db
     = (Inr (demoOrder O_PENDING OP_FAILED), dbWith (demoOrder O_PENDING OP_FAILED))"
    by (simp add: update_eval_defs)
  from update_payment_status[OF h1 h2] h1 h2 show ?thesis
    by (simp add: paymentStatusOnly_def)
qed

text \<open>
  Claim C5 as stated does not hold: the owner of an order marks it \<open>paid\<close> with a
  plain update request, without any payment.
\<close>

theorem update_sets_payment_status_counterexample:
  "fst (put_order demoEnv demoUser 1 (paymentStatusOnly OP_PAID) (dbWith (demoOrder O_PENDING OP_PENDING)))
     = Inr (demoOrder O_PENDING OP_PAID) \<and>
   orders (snd (put_order demoEnv demoUser 1 (paymentStatusOnly OP_PAID)
                  (dbWith (demoOrder O_PENDING OP_PENDING))))
     = [demoOrder O_PENDING OP_PAID]"
  by (simp add: update_eval_defs)

subsection \<open>The payment model and the refund guard\<close>

text \<open>
  Claim C9 asks that a partially refunded payment can be refunded further. In the code
  \<open>canBeRefunded\<close> only accepts status \<open>succeeded\<close>: a payment of 100.00 of which
  30.00 were refunded has 70 left to refund and is not refundable, and a refund request
  for it is answered with 400 \<open>Payment cannot be refunded\<close>. The same answer meets
  every refund request that follows a first partial refund made through the route. (That
  first refund answers with \<open>refundedAmount\<close> \<open>'0.0030'\<close>, the stored text
  \<open>'0.00'\<close> followed by the number 30, and the row keeps \<open>0.00\<close>.)
\<close>

theorem partially_refunded_not_refundable:
  "canBeRefunded (demoPayment P_PARTIALLY_REFUNDED 30) = False \<and>
   getRemainingRefundableAmount (demoPayment P_PARTIALLY_REFUNDED 30) = Num 70 \<and>
   post_refund demoPaymentEnv demoUser 1 \<lparr>rf_amount = Some 30, rf_reason = None\<rparr>
       (worldWith (demoPayment P_SUCCEEDED 0))
     = (Inr \<lparr>rr_refund = \<lparr>re_id = ''re_1'', re_status = ''succeeded''\<rparr>, rr_amount = Num 30,
             rr_reason = ''Customer request'',
             rr_payment = (demoPayment P_PARTIALLY_REFUNDED 0)\<lparr>refundedAmount := JStr ''0.0030''\<rparr>\<rparr>,
        worldWith (demoPayment P_PARTIALLY_REFUNDED 0)) \<and>
   post_refund demoPaymentEnv demoUser 1 \<lparr>rf_amount = Some 20, rf_reason = None\<rparr>
       (worldWith (demoPayment P_PARTIALLY_REFUNDED 0))
     = (Inl PaymentCannotBeRefunded, worldWith (demoPayment P_PARTIALLY_REFUNDED 0)) \<and>
   post_refund demoPaymentEnv demoUser 1 \<lparr>rf_amount = Some 20, rf_reason = None\<rparr>
       (worldWith (demoPayment P_PARTIALLY_REFUNDED 30))
     = (Inl PaymentCannotBeRefunded, worldWith (demoPayment P_PARTIALLY_REFUNDED 30))"
  by code_simp

subsection \<open>Refunds\<close>

text \<open>
  Claim C2 asks that \<open>refunded_amount\<close> follows the refunds and that a request beyond
  the remaining balance fails with the exceeds-balance error. On a succeeded payment of
  100.00 with nothing refunded a request for 150 is answered so, and nothing changes. A
  refund of 30 is sent to Stripe, but \<open>addRefund\<close> appends the number to the text of
  the \<open>DECIMAL\<close> column: the row keeps \<open>refundedAmount\<close> \<open>0.00\<close> and moves to
  \<open>partially_refunded\<close>. A request for 80 then exceeds the 70 that are left, and is
  answered with 400 \<open>Payment cannot be refunded\<close>, as it is when the row says 30.00.
  A refund of the whole 100 leaves the row at \<open>0.00\<close> and \<open>partially_refunded\<close>
  too, and does not tell the order service; a refund of 30.5 is sent to Stripe and then
  fails on the save of \<open>'0.0030.5'\<close>.
\<close>

theorem refund_balance_not_recorded:
  "post_refund demoPaymentEnv demoUser 1 exceedingRefund (worldWith (demoPayment P_SUCCEEDED 0))
     = (Inl RefundExceedsRemaining, worldWith (demoPayment P_SUCCEEDED 0)) \<and>
   snd (post_refund demoPaymentEnv demoUser 1 \<lparr>rf_amount = Some 30, rf_reason = None\<rparr>
          (worldWith (demoPayment P_SUCCEEDED 0)))
     = worldWith (demoPayment P_PARTIALLY_REFUNDED 0) \<and>
   refundedAmount (demoPayment P_PARTIALLY_REFUNDED 0) = JStr ''0.00'' \<and>
   post_refund demoPaymentEnv demoUser 1 \<lparr>rf_amount = Some 80, rf_reason = None\<rparr>
       (worldWith (demoPayment P_PARTIALLY_REFUNDED 0))
     = (Inl PaymentCannotBeRefunded, worldWith (demoPayment P_PARTIALLY_REFUNDED 0)) \<and>
   getRemainingRefundableAmount (demoPayment P_PARTIALLY_REFUNDED 30) = Num 70 \<and>
   post_refund demoPaymentEnv demoUser 1 \<lparr>rf_amount = Some 80, rf_reason = None\<rparr>
       (worldWith (demoPayment P_PARTIALLY_REFUNDED 30))
     = (Inl PaymentCannotBeRefunded, worldWith (demoPayment P_PARTIALLY_REFUNDED 30)) \<and>
   (case post_refund demoPaymentEnv demoUser 1 \<lparr>rf_amount = Some 100, rf_reason = None\<rparr>
           (worldWith (demoPayment P_SUCCEEDED 0)) of
      (Inr response, w') \<Rightarrow>
        refundedAmount (rr_payment response) = JStr ''0.00100'' \<and>
        w' = worldWith (demoPayment P_PARTIALLY_REFUNDED 0)
    | (Inl e, w') \<Rightarrow> False) \<and>
   post_refund demoPaymentEnv demoUser 1 \<lparr>rf_amount = Some (61 / 2), rf_reason = None\<rparr>
       (worldWith (demoPayment P_SUCCEEDED 0))
     = (Inl FailedToProcessRefund, worldWith (demoPayment P_SUCCEEDED 0))"
  by code_simp

subsection \<open>Confirming a payment\<close>

lemma savePayment_syncCalls [simp]: "orderSyncCalls (savePayment p w) = orderSyncCalls w"
  by (simp add: savePayment_def)

lemma find_savePayment:
  assumes "find P (payments w) = Some p" and "P p'" and "p_id p' = p_id p"
  shows "find P (payments (savePayment p' w)) = Some p'"
  using find_map_replace[of P "payments w" p p' p_id, OF assms]
  by (simp add: savePayment_def assms(3))

lemma confirmSwitch_not_succeeded:
  assumes "pi_status paymentIntent \<noteq> ''succeeded''"
  shows "\<exists>st fr. confirmSwitch paymentIntent payment
           = Some (st, payment\<lparr>failureReason := fr\<rparr>, noDetails)"
proof -
  let ?c = "the (confirmSwitch paymentIntent payment)"
  have "confirmSwitch paymentIntent payment \<noteq> None"
    using assms by (simp add: confirmSwitch_def Let_def)
  then have s: "confirmSwitch paymentIntent payment = Some ?c" by simp
  have "snd (snd ?c) = noDetails"
    using assms by (simp add: confirmSwitch_def Let_def)
  moreover have "fst (snd ?c) = payment\<lparr>failureReason := failureReason (fst (snd ?c))\<rparr>"
    using assms by (simp add: confirmSwitch_def Let_def)
  ultimately have "?c = (fst ?c, payment\<lparr>failureReason := failureReason (fst (snd ?c))\<rparr>, noDetails)"
    by (metis prod.collapse)
  with s show ?thesis by metis
qed

text \<open>
  Claim C10. When the payment of a confirm request is found, Stripe reports the intent
  in a status other than \<open>succeeded\<close> and the row is saved, the stored payment is the
  one found before with a new \<open>status\<close>, possibly a new \<open>failureReason\<close>, and
  \<open>paymentMethodDetails\<close> set to the empty object, whatever details were stored.
\<close>

theorem confirm_overwrites_details:
  assumes "confirmPaymentValidation body"
    and "findPaymentForConfirm user body w = FoundPayment payment"
    and "intentRetrieveReply env (cf_paymentIntentId body) = Some paymentIntent"
    and "pi_status paymentIntent \<noteq> ''succeeded''"
    and "paymentSaveOk env"
  shows "\<exists>st fr.
           findPaymentForConfirm user body (snd (confirm_payment env user body w))
             = FoundPayment (payment\<lparr>p_status := st, failureReason := fr,
                                     paymentMethodDetails := Some noDetails\<rparr>)"
proof -
  from confirmSwitch_not_succeeded[OF assms(4), of payment] obtain st fr where
    sw: "confirmSwitch paymentIntent payment
           = Some (st, payment\<lparr>failureReason := fr\<rparr>, noDetails)"
    by blast
  let ?p2 = "payment\<lparr>failureReason := fr, p_status := st, paymentMethodDetails := Some noDetails\<rparr>"
  let ?P = "\<lambda>p. stripePaymentIntentId p = Some (cf_paymentIntentId body) \<and>
                p_orderId p = cf_orderId body \<and> p_userId p = userId user"
  from assms(2) have na: "role user \<noteq> Admin"
    by (auto simp: findPaymentForConfirm_def)
  with assms(2) have f: "find ?P (payments w) = Some payment"
    by (simp add: findPaymentForConfirm_def split: option.splits)
  then have "?P payment" by (auto simp: find_Some_iff)
  then have "?P ?p2" by simp
  from find_savePayment[OF f this] na have
    found: "findPaymentForConfirm user body (savePayment ?p2 w) = FoundPayment ?p2"
    by (simp add: findPaymentForConfirm_def)
  have pay: "payments (snd (confirm_payment env user body w)) = payments (savePayment ?p2 w)"
    using assms sw by (simp add: confirm_payment_def Let_def updateOrderPaymentStatus_def)
  have "findPaymentForConfirm user body (snd (confirm_payment env user body w)) = FoundPayment ?p2"
    using found pay na by (simp add: findPaymentForConfirm_def)
  moreover have "?p2 = payment\<lparr>p_status := st, failureReason := fr,
                              paymentMethodDetails := Some noDetails\<rparr>" by simp
  ultimately show ?thesis by metis
qed

text \<open>A pending payment with stored card details, confirmed while Stripe reports \<open>processing\<close>.\<close>

theorem confirm_overwrites_details_witness:
  "confirmPaymentValidation demoConfirm \<and>
   findPaymentForConfirm demoUser demoConfirm
       (worldWith ((demoPayment P_PENDING 0)\<lparr>paymentMethodDetails := Some visaDetails\<rparr>))
     = FoundPayment ((demoPayment P_PENDING 0)\<lparr>paymentMethodDetails := Some visaDetails\<rparr>) \<and>
   pi_status (retrievedIntent ''pi_1'' ''processing'') \<noteq> ''succeeded'' \<and>
   (\<exists>st fr.
      findPaymentForConfirm demoUser demoConfirm
          (snd (confirm_payment (gatewayEnv ''processing'') demoUser demoConfirm
             (worldWith ((demoPayment P_PENDING 0)\<lparr>paymentMethodDetails := Some visaDetails\<rparr>))))
        = FoundPayment ((demoPayment P_PENDING 0)\<lparr>p_status := st, failureReason := fr,
                   paymentMethodDetails := Some noDetails\<rparr>))"
proof -
  let ?p = "(demoPayment P_PENDING 0)\<lparr>paymentMethodDetails := Some visaDetails\<rparr>"
  have h1: "confirmPaymentValidation demoConfirm"
    by (simp add: confirmPaymentValidation_def notEmpty_def demoConfirm_def)
  have h2: "findPaymentForConfirm demoUser demoConfirm (worldWith ?p) = FoundPayment ?p"
    by (simp add: findPaymentForConfirm_def demoConfirm_def worldWith_def demoPayment_def
          demoUser_def)
  have h3: "intentRetrieveReply (gatewayEnv ''processing'') (cf_paymentIntentId demoConfirm)
              = Some (retrievedIntent ''pi_1'' ''processing'')"
    by (simp add: gatewayEnv_def demoConfirm_def demoPaymentEnv_def)
  have h4: "pi_status (retrievedIntent ''pi_1'' ''processing'') \<noteq> ''succeeded''"
    by (simp add: retrievedIntent_def demoIntent_def)
  have h5: "paymentSaveOk (gatewayEnv ''processing'')"
    by (simp add: gatewayEnv_def demoPaymentEnv_def)
  from confirm_overwrites_details[OF h1 h2 h3 h4 h5] h1 h2 h4 show ?thesis by simp
qed

subsection \<open>A succeeded intent, seen twice\<close>





subsection \<open>Creating payment intents\<close>

lemma find_None_filter: "find P xs = None \<Longrightarrow> filter P xs = []"
  by (induction xs) (auto split: if_splits)

lemma find_Some_filter: "filter P xs \<noteq> [] \<Longrightarrow> \<exists>x. find P xs = Some x"
  by (induction xs) auto

lemma create_intent_step:
  assumes "length (activePaymentsFor orderId w) \<le> 1"
  shows "length (activePaymentsFor orderId (snd (create_intent env user body w))) \<le> 1"
proof (cases "payments (snd (create_intent env user body w)) = payments w")
  case True
  with assms show ?thesis by (simp add: activePaymentsFor_def)
next
  case False
  then obtain payment where
    none: "findExistingPayment (ci_orderId body) w = None"
    and new: "payments (snd (create_intent env user body w)) = payments w @ [payment]"
    and oid: "p_orderId payment = ci_orderId body"
    by (auto simp: create_intent_def Let_def split: if_splits option.splits prod.splits)
  from none have empty: "activePaymentsFor (ci_orderId body) w = []"
    by (simp add: findExistingPayment_def activePaymentsFor_def find_None_filter)
  show ?thesis
  proof (cases "orderId = ci_orderId body")
    case True
    with empty new show ?thesis by (simp add: activePaymentsFor_def)
  next
    case False
    with assms new oid show ?thesis by (simp add: activePaymentsFor_def)
  qed
qed

lemma create_intent_calls_invariant:
  "\<forall>orderId. length (activePaymentsFor orderId w) \<le> 1 \<Longrightarrow>
   \<forall>orderId. length (activePaymentsFor orderId (create_intent_calls cs w)) \<le> 1"
proof (induction cs arbitrary: w)
  case Nil
  then show ?case by simp
next
  case (Cons c cs)
  from Cons.prems have
    "\<forall>orderId. length (activePaymentsFor orderId
        (snd (create_intent (ic_env c) (ic_user c) (ic_body c) w))) \<le> 1"
    using create_intent_step by blast
  from Cons.IH[OF this] show ?case by simp
qed

text \<open>
  Claim C3, as the code has it. A valid create-intent request by the owner of the order
  or an admin, for an order that has a payment in status \<open>pending\<close>,
  \<open>processing\<close> or \<open>succeeded\<close>, is answered with 400
  \<open>Payment already exists for this order\<close> and leaves the store unchanged. Hence
  create-intent requests, served one after the other, never give an order a second such
  payment.
\<close>

theorem create_intent_conflict:
  "(createPaymentIntentValidation body \<and> orderOwner env (ci_orderId body) = Some owner \<and>
    (owner = userId user \<or> role user = Admin) \<and>
    activePaymentsFor (ci_orderId body) w \<noteq> [] \<longrightarrow>
      create_intent env user body w = (Inl PaymentAlreadyExists, w)) \<and>
   ((\<forall>orderId. length (activePaymentsFor orderId w) \<le> 1) \<longrightarrow>
      (\<forall>orderId. length (activePaymentsFor orderId (create_intent_calls cs w)) \<le> 1))"
proof (intro conjI impI)
  assume a: "createPaymentIntentValidation body \<and> orderOwner env (ci_orderId body) = Some owner \<and>
    (owner = userId user \<or> role user = Admin) \<and>
    activePaymentsFor (ci_orderId body) w \<noteq> []"
  then obtain existing where "findExistingPayment (ci_orderId body) w = Some existing"
    using find_Some_filter by (fastforce simp: activePaymentsFor_def findExistingPayment_def)
  with a show "create_intent env user body w = (Inl PaymentAlreadyExists, w)"
    by (auto simp: create_intent_def Let_def)
next
  assume "\<forall>orderId. length (activePaymentsFor orderId w) \<le> 1"
  then show "\<forall>orderId. length (activePaymentsFor orderId (create_intent_calls cs w)) \<le> 1"
    by (rule create_intent_calls_invariant)
qed

text \<open>Order 1 has a pending payment; a second intent for it and a first one for order 2.\<close>

theorem create_intent_conflict_witness:
  "activePaymentsFor 1 (worldWith (demoPayment P_PENDING 0)) = [demoPayment P_PENDING 0] \<and>
   create_intent (intentEnv ''pi_2'') demoUser demoIntentBody (worldWith (demoPayment P_PENDING 0))
     = (Inl PaymentAlreadyExists, worldWith (demoPayment P_PENDING 0)) \<and>
   (\<forall>orderId. length (activePaymentsFor orderId
       (create_intent_calls
          [\<lparr>ic_env = intentEnv ''pi_2'', ic_user = demoUser, ic_body = demoIntentBody\<rparr>,
           \<lparr>ic_env = intentEnv ''pi_3'', ic_user = demoUser,
            ic_body = demoIntentBody\<lparr>ci_orderId := 2\<rparr>\<rparr>]
          (worldWith (demoPayment P_PENDING 0)))) \<le> 1)"
proof -
  let ?w = "worldWith (demoPayment P_PENDING 0)"
  have h0: "activePaymentsFor 1 ?w = [demoPayment P_PENDING 0]"
    by code_simp
  have h1: "createPaymentIntentValidation demoIntentBody"
    by code_simp
  have h2: "orderOwner (intentEnv ''pi_2'') (ci_orderId demoIntentBody) = Some 1"
    by (simp add: intentEnv_def demoPaymentEnv_def)
  have h3: "userId demoUser = 1" by (simp add: demoUser_def)
  have h4: "ci_orderId demoIntentBody = 1" by (simp add: demoIntentBody_def)
  have h5: "\<forall>orderId. length (activePaymentsFor orderId ?w) \<le> 1"
    by (simp add: activePaymentsFor_def worldWith_def)
  have g: "createPaymentIntentValidation demoIntentBody \<and>
      orderOwner (intentEnv ''pi_2'') (ci_orderId demoIntentBody) = Some 1 \<and>
      (1 = userId demoUser \<or> role demoUser = Admin) \<and>
      activePaymentsFor (ci_orderId demoIntentBody) ?w \<noteq> []"
    using h0 h1 h2 h3 h4 by simp
  let ?cs = "[\<lparr>ic_env = intentEnv ''pi_2'', ic_user = demoUser, ic_body = demoIntentBody\<rparr>,
              \<lparr>ic_env = intentEnv ''pi_3'', ic_user = demoUser,
               ic_body = demoIntentBody\<lparr>ci_orderId := 2\<rparr>\<rparr>]"
  from create_intent_conflict[where body = demoIntentBody and env = "intentEnv ''pi_2''"
      and owner = 1 and user = demoUser and w = ?w and cs = ?cs] g h5
  have c1: "create_intent (intentEnv ''pi_2'') demoUser demoIntentBody ?w
              = (Inl PaymentAlreadyExists, ?w)"
    and c2: "\<forall>orderId. length (activePaymentsFor orderId (create_intent_calls ?cs ?w)) \<le> 1"
    by blast+
  with h0 show ?thesis by blast
qed

text \<open>
  Claim C3 as stated does not hold at all times: the status changes of the webhook
  handlers are not guarded, and a failed payment that succeeds after a new intent was
  created leaves order 1 with a succeeded and a pending payment.
\<close>

theorem second_active_payment_counterexample:
  "map (\<lambda>p. (p_id p, p_orderId p, p_status p)) (activePaymentsFor 1 retryRun)
     = [(1, 1, P_SUCCEEDED), (2, 1, P_PENDING)]"
  by code_simp

end
